theory Spec2Isabelle
  imports Complex_Main "HOL-Library.Log_Nat"
begin

section \<open>JavaScript values used by the password-policy handlers\<close>

text \<open>
  A JavaScript number is a double: a rational of that format, or one of the three non-finite
  values (the two zeros are not told apart). \<open>toDouble\<close> is the Number value of a
  mathematical value: the nearest double, ties to the even significand, with a quantum of
  \<open>2 powi (e - 52)\<close> in the binade \<open>e\<close>, of \<open>2 powi (- 1074)\<close> below the normal range, and
  infinity from \<open>2 powi 1024\<close> on. \<^verbatim>\<open>JSON.parse\<close> rounds every number literal so. The integer
  that \<^verbatim>\<open>parseInt\<close> reads is kept exact; it is a double whenever it is below \<open>2 ^ 53\<close>, as the
  lengths, ages and counts of a password policy are.
\<close>

datatype jsnum = Fin rat | NaN | PosInfinity | NegInfinity

text \<open>
  A raw value of a template field, as the TypeScript signatures of the deserializers have
  it: \<^verbatim>\<open>string | boolean\<close> for boolean fields, \<^verbatim>\<open>string | number\<close> for integer fields,
  each possibly \<^verbatim>\<open>undefined\<close> or \<^verbatim>\<open>null\<close>.
\<close>

datatype 'a raw = Undefined | Null | Native 'a | Str string

subsection \<open>The Number value of a mathematical value\<close>

definition roundHalfEven :: "rat \<Rightarrow> int" where
  "roundHalfEven x =
     (let f = \<lfloor>x\<rfloor>; d = x - of_int f
      in if d < 1 / 2 then f else if 1 / 2 < d then f + 1 else if even f then f else f + 1)"

definition floorLog2 :: "rat \<Rightarrow> int" where
  "floorLog2 a =
     (let (p, d) = quotient_of a; e = bitlen p - bitlen d
      in if 2 powi e \<le> a then e else e - 1)"

definition toDouble :: "rat \<Rightarrow> jsnum" where
  "toDouble x =
     (if x = 0 then Fin 0
      else
        (let a = \<bar>x\<bar>;
             e = max (floorLog2 a) (- 1022);
             u = 2 powi (e - 52);
             r = of_int (roundHalfEven (a / u)) * u
         in if 2 powi 1024 \<le> r then (if 0 < x then PosInfinity else NegInfinity)
            else Fin (if 0 < x then r else - r)))"

subsection \<open>Number.parseInt(value, 10)\<close>

definition isStrWhiteSpace :: "char \<Rightarrow> bool" where
  "isStrWhiteSpace c = (of_char c \<in> {9, 10, 11, 12, 13, 32, 160 :: nat})"

definition isDigit :: "char \<Rightarrow> bool" where
  "isDigit c = (48 \<le> (of_char c :: nat) \<and> (of_char c :: nat) \<le> 57)"

definition digitValue :: "char \<Rightarrow> int" where
  "digitValue c = int (of_char c) - 48"

definition decimalValue :: "string \<Rightarrow> int" where
  "decimalValue ds = foldl (\<lambda>acc c. 10 * acc + digitValue c) 0 ds"

text \<open>
  ECMAScript \<^verbatim>\<open>parseInt(string, 10)\<close>: leading white space is trimmed, one sign is read, the
  longest prefix of decimal digits is taken; no digit gives \<^verbatim>\<open>NaN\<close>, anything after the digits
  is ignored.
\<close>

definition parseInt10 :: "string \<Rightarrow> jsnum" where
  "parseInt10 inputString =
     (let S = dropWhile isStrWhiteSpace inputString;
          sign = (if S \<noteq> [] \<and> hd S = CHR ''-'' then -1 else 1 :: int);
          S' = (if S \<noteq> [] \<and> (hd S = CHR ''+'' \<or> hd S = CHR ''-'') then tl S else S);
          Z = takeWhile isDigit S'
      in if Z = [] then NaN else Fin (of_int (sign * decimalValue Z)))"

subsection \<open>Math.trunc\<close>

definition truncRat :: "rat \<Rightarrow> int" where
  "truncRat q = (if 0 \<le> q then \<lfloor>q\<rfloor> else \<lceil>q\<rceil>)"

fun Math_trunc :: "jsnum \<Rightarrow> jsnum" where
  "Math_trunc (Fin q) = Fin (of_int (truncRat q))"
| "Math_trunc NaN = NaN"
| "Math_trunc PosInfinity = PosInfinity"
| "Math_trunc NegInfinity = NegInfinity"

subsection \<open>parseInteger\<close>

text \<open>
  \<^verbatim>\<open>src/src/handlers.ts\<close>:
  \<^verbatim>\<open>if (value && typeof value === 'string') { return Number.parseInt(value, 10); }\<close>
  A function body that falls through returns \<^verbatim>\<open>undefined\<close>, here \<open>None\<close>.
  The empty string is falsy.
\<close>

fun parseInteger :: "jsnum raw \<Rightarrow> jsnum option" where
  "parseInteger (Str s) = (if s \<noteq> [] then Some (parseInt10 s) else None)"
| "parseInteger (Native n) = None"
| "parseInteger Undefined = None"
| "parseInteger Null = None"

text \<open>
  The revision of the same function in \<^verbatim>\<open>src/unnamed/part_003\<close>: a value that is neither
  \<^verbatim>\<open>undefined\<close> nor \<^verbatim>\<open>null\<close> is parsed when it is a string and truncated when it is a
  number.
\<close>

fun parseInteger_part_003 :: "jsnum raw \<Rightarrow> jsnum option" where
  "parseInteger_part_003 Undefined = None"
| "parseInteger_part_003 Null = None"
| "parseInteger_part_003 (Str s) = Some (parseInt10 s)"
| "parseInteger_part_003 (Native n) = Some (Math_trunc n)"

subsection \<open>JSON.parse\<close>

text \<open>
  The JSON grammar of ECMA-404, as \<^verbatim>\<open>JSON.parse\<close> reads it: a recursive-descent parser.
  The nesting of arrays and objects makes the recursion non-structural, so the three mutually
  recursive functions count down a fuel; \<open>JSON_parse\<close> gives them more than they can use
  (lemma \<open>JSON_parse_fuel\<close>), so its \<open>None\<close> is the \<^verbatim>\<open>SyntaxError\<close> of \<^verbatim>\<open>JSON.parse\<close> and
  nothing else. A string value is kept as its list of code units, a number as the double
  nearest to the value of its literal.
\<close>

datatype json = JNull | JBool bool | JNum jsnum | JStr "nat list" | JArr "json list"
  | JObj "(nat list \<times> json) list"

datatype 'a parsed = Ok 'a | Invalid | OutOfFuel

definition isJsonWs :: "char \<Rightarrow> bool" where
  "isJsonWs c = (of_char c \<in> {9, 10, 13, 32 :: nat})"

definition skipWs :: "string \<Rightarrow> string" where
  "skipWs s = dropWhile isJsonWs s"

definition hexValue :: "char \<Rightarrow> nat option" where
  "hexValue c =
     (let n = (of_char c :: nat)
      in if 48 \<le> n \<and> n \<le> 57 then Some (n - 48)
         else if 97 \<le> n \<and> n \<le> 102 then Some (n - 87)
         else if 65 \<le> n \<and> n \<le> 70 then Some (n - 55)
         else None)"

definition simpleEscape :: "char \<Rightarrow> nat option" where
  "simpleEscape c =
     (if c = CHR 0x22 then Some 34 else if c = CHR 0x5C then Some 92
      else if c = CHR ''/'' then Some 47 else if c = CHR ''b'' then Some 8
      else if c = CHR ''f'' then Some 12 else if c = CHR ''n'' then Some 10
      else if c = CHR ''r'' then Some 13 else if c = CHR ''t'' then Some 9
      else None)"

fun jsonChars :: "string \<Rightarrow> (nat list \<times> string) option" where
  "jsonChars [] = None"
| "jsonChars (c # cs) =
     (if c = CHR 0x22 then Some ([], cs)
      else if c = CHR 0x5C then
        (case cs of
           [] \<Rightarrow> None
         | e # r \<Rightarrow>
             if e = CHR ''u'' then
               (case r of
                  a # b # c' # d # r' \<Rightarrow>
                    (case (hexValue a, hexValue b, hexValue c', hexValue d) of
                       (Some x1, Some x2, Some x3, Some x4) \<Rightarrow>
                         map_option (\<lambda>(us, rest). ((((x1 * 16 + x2) * 16 + x3) * 16 + x4) # us, rest))
                           (jsonChars r')
                     | _ \<Rightarrow> None)
                | _ \<Rightarrow> None)
             else
               (case simpleEscape e of
                  None \<Rightarrow> None
                | Some u \<Rightarrow> map_option (\<lambda>(us, rest). (u # us, rest)) (jsonChars r)))
      else if (of_char c :: nat) < 32 then None
      else map_option (\<lambda>(us, rest). (of_char c # us, rest)) (jsonChars cs))"

definition powerOfTen :: "int \<Rightarrow> rat" where
  "powerOfTen e = (if 0 \<le> e then 10 ^ nat e else 1 / 10 ^ nat (- e))"

definition jsonNumber :: "string \<Rightarrow> (jsnum \<times> string) option" where
  "jsonNumber s =
     (let neg = (s \<noteq> [] \<and> hd s = CHR ''-'');
          s1 = (if neg then tl s else s);
          ip = (if s1 \<noteq> [] \<and> hd s1 = CHR ''0'' then [hd s1] else takeWhile isDigit s1);
          s2 = drop (length ip) s1;
          hasFrac = (s2 \<noteq> [] \<and> hd s2 = CHR ''.'');
          fp = (if hasFrac then takeWhile isDigit (tl s2) else []);
          s3 = (if hasFrac then dropWhile isDigit (tl s2) else s2);
          hasExp = (s3 \<noteq> [] \<and> (hd s3 = CHR ''e'' \<or> hd s3 = CHR ''E''));
          s4 = (if hasExp then tl s3 else s3);
          expNeg = (hasExp \<and> s4 \<noteq> [] \<and> hd s4 = CHR ''-'');
          s5 = (if hasExp \<and> s4 \<noteq> [] \<and> (hd s4 = CHR ''+'' \<or> hd s4 = CHR ''-'') then tl s4 else s4);
          ep = (if hasExp then takeWhile isDigit s5 else []);
          s6 = (if hasExp then dropWhile isDigit s5 else s5);
          e = (if expNeg then - decimalValue ep else decimalValue ep) - int (length fp);
          m = decimalValue (ip @ fp)
      in if ip = [] \<or> (hasFrac \<and> fp = []) \<or> (hasExp \<and> ep = []) then None
         else Some (toDouble ((if neg then - 1 else 1) * of_int m * powerOfTen e), s6))"

fun jsonValue :: "nat \<Rightarrow> string \<Rightarrow> (json \<times> string) parsed"
  and jsonElements :: "nat \<Rightarrow> string \<Rightarrow> (json list \<times> string) parsed"
  and jsonMembers :: "nat \<Rightarrow> string \<Rightarrow> ((nat list \<times> json) list \<times> string) parsed"
where
  "jsonValue 0 s = OutOfFuel"
| "jsonValue (Suc n) s =
     (case s of
        [] \<Rightarrow> Invalid
      | c # cs \<Rightarrow>
          if c = CHR ''{'' then
            (let r = skipWs cs
             in if r \<noteq> [] \<and> hd r = CHR ''}'' then Ok (JObj [], tl r)
                else (case jsonMembers n r of
                        Ok (ms, r') \<Rightarrow> Ok (JObj ms, r')
                      | Invalid \<Rightarrow> Invalid
                      | OutOfFuel \<Rightarrow> OutOfFuel))
          else if c = CHR ''['' then
            (let r = skipWs cs
             in if r \<noteq> [] \<and> hd r = CHR '']'' then Ok (JArr [], tl r)
                else (case jsonElements n r of
                        Ok (vs, r') \<Rightarrow> Ok (JArr vs, r')
                      | Invalid \<Rightarrow> Invalid
                      | OutOfFuel \<Rightarrow> OutOfFuel))
          else if c = CHR 0x22 then
            (case jsonChars cs of
               None \<Rightarrow> Invalid
             | Some (us, r) \<Rightarrow> Ok (JStr us, r))
          else if c = CHR ''-'' \<or> isDigit c then
            (case jsonNumber s of
               None \<Rightarrow> Invalid
             | Some (q, r) \<Rightarrow> Ok (JNum q, r))
          else if take 4 s = ''true'' then Ok (JBool True, drop 4 s)
          else if take 5 s = ''false'' then Ok (JBool False, drop 5 s)
          else if take 4 s = ''null'' then Ok (JNull, drop 4 s)
          else Invalid)"
| "jsonElements 0 s = OutOfFuel"
| "jsonElements (Suc n) s =
     (case jsonValue n s of
        Ok (v, r) \<Rightarrow>
          (let r' = skipWs r
           in if r' \<noteq> [] \<and> hd r' = CHR '','' then
                (case jsonElements n (skipWs (tl r')) of
                   Ok (vs, r'') \<Rightarrow> Ok (v # vs, r'')
                 | Invalid \<Rightarrow> Invalid
                 | OutOfFuel \<Rightarrow> OutOfFuel)
              else if r' \<noteq> [] \<and> hd r' = CHR '']'' then Ok ([v], tl r')
              else Invalid)
      | Invalid \<Rightarrow> Invalid
      | OutOfFuel \<Rightarrow> OutOfFuel)"
| "jsonMembers 0 s = OutOfFuel"
| "jsonMembers (Suc n) s =
     (if s \<noteq> [] \<and> hd s = CHR 0x22 then
        (case jsonChars (tl s) of
           None \<Rightarrow> Invalid
         | Some (k, r) \<Rightarrow>
             (let r1 = skipWs r
              in if r1 \<noteq> [] \<and> hd r1 = CHR '':'' then
                   (case jsonValue n (skipWs (tl r1)) of
                      Ok (v, r2) \<Rightarrow>
                        (let r3 = skipWs r2
                         in if r3 \<noteq> [] \<and> hd r3 = CHR '','' then
                              (case jsonMembers n (skipWs (tl r3)) of
                                 Ok (ms, r4) \<Rightarrow> Ok ((k, v) # ms, r4)
                               | Invalid \<Rightarrow> Invalid
                               | OutOfFuel \<Rightarrow> OutOfFuel)
                            else if r3 \<noteq> [] \<and> hd r3 = CHR ''}'' then Ok ([(k, v)], tl r3)
                            else Invalid)
                    | Invalid \<Rightarrow> Invalid
                    | OutOfFuel \<Rightarrow> OutOfFuel)
                 else Invalid))
      else Invalid)"

definition JSON_parse :: "string \<Rightarrow> json option" where
  "JSON_parse text =
     (let s = skipWs text
      in case jsonValue (2 * length s + 1) s of
           Ok (v, r) \<Rightarrow> if skipWs r = [] then Some v else None
         | Invalid \<Rightarrow> None
         | OutOfFuel \<Rightarrow> None)"

subsection \<open>parseBoolean\<close>

text \<open>
  \<^verbatim>\<open>String.prototype.toLowerCase\<close> on a string of code units below 256: the Latin capital
  letters (A to Z, and U+00C0 to U+00DE without the multiplication sign U+00D7) move up by 32.
\<close>

definition toLowerChar :: "char \<Rightarrow> char" where
  "toLowerChar c =
     (let n = (of_char c :: nat)
      in if (65 \<le> n \<and> n \<le> 90) \<or> (192 \<le> n \<and> n \<le> 222 \<and> n \<noteq> 215) then char_of (n + 32) else c)"

definition toLowerCase :: "string \<Rightarrow> string" where
  "toLowerCase s = map toLowerChar s"

text \<open>\<^verbatim>\<open>String(value)\<close> for a value of type \<^verbatim>\<open>string | boolean\<close>.\<close>

fun String_of :: "bool raw \<Rightarrow> string" where
  "String_of (Str s) = s"
| "String_of (Native b) = (if b then ''true'' else ''false'')"
| "String_of Undefined = ''undefined''"
| "String_of Null = ''null''"

text \<open>The double negation \<^verbatim>\<open>!!v\<close> of a value that \<^verbatim>\<open>JSON.parse\<close> returned.\<close>

fun truthy :: "json \<Rightarrow> bool" where
  "truthy JNull = False"
| "truthy (JBool b) = b"
| "truthy (JNum n) = (n \<noteq> Fin 0 \<and> n \<noteq> NaN)"
| "truthy (JStr us) = (us \<noteq> [])"
| "truthy (JArr vs) = True"
| "truthy (JObj ms) = True"

text \<open>
  What a remote call of the SDK throws (\<^verbatim>\<open>err.code\<close>, \<^verbatim>\<open>err.message\<close>), and what the
  handlers throw: the SDK's error as it is, the \<^verbatim>\<open>SyntaxError\<close> of \<^verbatim>\<open>JSON.parse\<close>, and the two
  exceptions of the host framework, \<^verbatim>\<open>NotFound(typeName, identifier)\<close> and
  \<^verbatim>\<open>InternalFailure(message)\<close>.
\<close>

datatype AWSError = AWSError (code: "string option") (message: string)

datatype error =
    AWSFailure AWSError
  | SyntaxError
  | NotFound string "string option"
  | InternalFailure string

text \<open>
  \<^verbatim>\<open>if (value !== undefined && value !== null) { return !!JSON.parse(String(value).toLowerCase()); }\<close>
\<close>

definition parseBoolean :: "bool raw \<Rightarrow> error + bool option" where
  "parseBoolean value =
     (if value \<noteq> Undefined \<and> value \<noteq> Null then
        (case JSON_parse (toLowerCase (String_of value)) of
           None \<Rightarrow> Inl SyntaxError
         | Some v \<Rightarrow> Inr (Some (truthy v)))
      else Inr None)"

section \<open>The policy model\<close>

text \<open>
  The eleven fields of \<^verbatim>\<open>class PasswordPolicy\<close>. The same field names occur in the typed
  model (every field \<^verbatim>\<open>Optional\<close>) and in the plain objects that \<^verbatim>\<open>fromObject\<close> reads and
  \<^verbatim>\<open>toObject\<close> writes, so the record is generic in the type of its string, integer and boolean
  fields.
\<close>

record ('s, 'n, 'b) PolicyFields =
  ResourceId :: 's
  MinimumPasswordLength :: 'n
  RequireSymbols :: 'b
  RequireNumbers :: 'b
  RequireUppercaseCharacters :: 'b
  RequireLowercaseCharacters :: 'b
  AllowUsersToChangePassword :: 'b
  ExpirePasswords :: 'b
  MaxPasswordAge :: 'n
  PasswordReusePrevention :: 'n
  HardExpiry :: 'b

type_synonym PasswordPolicy = "(string option, jsnum option, bool option) PolicyFields"

text \<open>A plain object: a key that is missing reads as \<^verbatim>\<open>undefined\<close>.\<close>

type_synonym PlainObject = "(string option, jsnum raw, bool raw) PolicyFields"

definition bindE :: "error + 'a \<Rightarrow> ('a \<Rightarrow> error + 'b) \<Rightarrow> error + 'b" where
  "bindE m f = (case m of Inl e \<Rightarrow> Inl e | Inr x \<Rightarrow> f x)"

text \<open>
  Modelled from the spec: \<^verbatim>\<open>TypedJSON.parse\<close> (the typedjson library is not in the
  repository). For each member that carries \<^verbatim>\<open>@jsonMember\<close> the declared deserializer is
  applied to the raw value, in the order of declaration; a result that is \<^verbatim>\<open>undefined\<close> leaves
  the field absent; a deserializer that throws makes the parse fail. \<^verbatim>\<open>ResourceId\<close> has the
  constructor \<^verbatim>\<open>String\<close> and no deserializer: it passes through. \<^verbatim>\<open>ExpirePasswords\<close> carries
  no \<^verbatim>\<open>@jsonMember\<close>: it is not read. The table of deserializers is the one of
  \<^verbatim>\<open>src/src/handlers.ts\<close>.
\<close>

definition fromObject :: "PlainObject \<Rightarrow> error + PasswordPolicy" where
  "fromObject input =
     bindE (parseBoolean (RequireSymbols input)) (\<lambda>requireSymbols.
     bindE (parseBoolean (RequireNumbers input)) (\<lambda>requireNumbers.
     bindE (parseBoolean (RequireUppercaseCharacters input)) (\<lambda>requireUppercaseCharacters.
     bindE (parseBoolean (RequireLowercaseCharacters input)) (\<lambda>requireLowercaseCharacters.
     bindE (parseBoolean (AllowUsersToChangePassword input)) (\<lambda>allowUsersToChangePassword.
     bindE (parseBoolean (HardExpiry input)) (\<lambda>hardExpiry.
       Inr \<lparr> ResourceId = ResourceId input,
             MinimumPasswordLength = parseInteger (MinimumPasswordLength input),
             RequireSymbols = requireSymbols,
             RequireNumbers = requireNumbers,
             RequireUppercaseCharacters = requireUppercaseCharacters,
             RequireLowercaseCharacters = requireLowercaseCharacters,
             AllowUsersToChangePassword = allowUsersToChangePassword,
             ExpirePasswords = None,
             MaxPasswordAge = parseInteger (MaxPasswordAge input),
             PasswordReusePrevention = parseInteger (PasswordReusePrevention input),
             HardExpiry = hardExpiry \<rparr>))))))"

fun toPlain :: "'a option \<Rightarrow> 'a raw" where
  "toPlain None = Undefined"
| "toPlain (Some v) = Native v"

text \<open>
  Modelled from the spec: \<^verbatim>\<open>TypedJSON.toPlainJson\<close>. Every member that carries
  \<^verbatim>\<open>@jsonMember\<close> and has a value is written as it is (no serializer is declared); an absent
  field and \<^verbatim>\<open>ExpirePasswords\<close> are left out. \<^verbatim>\<open>ResourceId\<close> is a member, and is written.
\<close>

definition toObject :: "PasswordPolicy \<Rightarrow> PlainObject" where
  "toObject m =
     \<lparr> ResourceId = ResourceId m,
       MinimumPasswordLength = toPlain (MinimumPasswordLength m),
       RequireSymbols = toPlain (RequireSymbols m),
       RequireNumbers = toPlain (RequireNumbers m),
       RequireUppercaseCharacters = toPlain (RequireUppercaseCharacters m),
       RequireLowercaseCharacters = toPlain (RequireLowercaseCharacters m),
       AllowUsersToChangePassword = toPlain (AllowUsersToChangePassword m),
       ExpirePasswords = Undefined,
       MaxPasswordAge = toPlain (MaxPasswordAge m),
       PasswordReusePrevention = toPlain (PasswordReusePrevention m),
       HardExpiry = toPlain (HardExpiry m) \<rparr>"

text \<open>
  The spec's \<^verbatim>\<open>serialize\<close>: the write request that \<^verbatim>\<open>upsertPasswordPolicy\<close> builds,
  \<^verbatim>\<open>const params = model.toObject(); delete params['ResourceId'];\<close>
\<close>

definition serialize :: "PasswordPolicy \<Rightarrow> PlainObject" where
  "serialize model = (toObject model)\<lparr>ResourceId := None\<rparr>"

section \<open>The lifecycle handlers\<close>

text \<open>
  Modelled from the spec: the type name \<^verbatim>\<open>PasswordPolicy.TYPE_NAME\<close> is inherited from the
  generated \<^verbatim>\<open>models.ts\<close>, which is not among the sources.
\<close>

definition TYPE_NAME :: string where
  "TYPE_NAME = ''OC::Organizations::PasswordPolicy''"

text \<open>
  The IAM client of a session: what each of the three remote operations answers. A failed
  promise is \<open>Inl\<close>. Every remote call that a handler makes is recorded, in order.
\<close>

record IAM =
  getAccountPasswordPolicy :: "AWSError + PlainObject"
  updateAccountPasswordPolicy :: "PlainObject \<Rightarrow> AWSError + unit"
  deleteAccountPasswordPolicy :: "AWSError + unit"

datatype SessionProxy = SessionProxy IAM

datatype remote_call = ReadPolicy | WritePolicy PlainObject | DeletePolicy

datatype OperationStatus = InProgress | Success | Failed

record ProgressEvent =
  status :: OperationStatus
  resourceModel :: "PasswordPolicy option"
  resourceModels :: "PasswordPolicy option list option"

record ResourceHandlerRequest =
  desiredResourceState :: PlainObject
  previousResourceState :: "PlainObject option"
  logicalResourceIdentifier :: "string option"

text \<open>\<^verbatim>\<open>a || b\<close> on optional strings: the empty string is falsy, as \<^verbatim>\<open>undefined\<close> is.\<close>

definition falsy :: "string option \<Rightarrow> bool" where
  "falsy a = (a = None \<or> a = Some [])"

definition orElse :: "string option \<Rightarrow> string option \<Rightarrow> string option" where
  "orElse a b = (if falsy a then b else a)"

text \<open>
  The \<^verbatim>\<open>catch\<close> block of \<^verbatim>\<open>retrievePasswordPolicy\<close>:
  \<^verbatim>\<open>if (err && err.code === 'NoSuchEntity') throw new exceptions.NotFound(TYPE_NAME, resourceId || logicalResourceId); else throw err;\<close>
  Only the SDK's errors have a \<^verbatim>\<open>code\<close>.
\<close>

fun retrieveCatch :: "string option \<Rightarrow> string option \<Rightarrow> error \<Rightarrow> error" where
  "retrieveCatch resourceId logicalResourceId (AWSFailure err) =
     (if code err = Some ''NoSuchEntity''
      then NotFound TYPE_NAME (orElse resourceId logicalResourceId)
      else AWSFailure err)"
| "retrieveCatch resourceId logicalResourceId err = err"

text \<open>
  \<^verbatim>\<open>retrievePasswordPolicy\<close>: the result is the list of remote calls made and either the
  error thrown or the model returned; \<open>None\<close> is the \<^verbatim>\<open>null\<close> the function starts from.
\<close>

definition retrievePasswordPolicy ::
  "SessionProxy option \<Rightarrow> string option \<Rightarrow> string option
    \<Rightarrow> remote_call list \<times> (error + PasswordPolicy option)" where
  "retrievePasswordPolicy session resourceId logicalResourceId =
     (case session of
        None \<Rightarrow> ([], Inr None)
      | Some (SessionProxy client) \<Rightarrow>
          (case getAccountPasswordPolicy client of
             Inl err \<Rightarrow>
               ([ReadPolicy], Inl (retrieveCatch resourceId logicalResourceId (AWSFailure err)))
           | Inr response \<Rightarrow>
               (case fromObject response of
                  Inl err \<Rightarrow> ([ReadPolicy], Inl (retrieveCatch resourceId logicalResourceId err))
                | Inr model \<Rightarrow>
                    ([ReadPolicy],
                     Inr (Some (model\<lparr>ResourceId := orElse resourceId logicalResourceId\<rparr>))))))"

text \<open>
  Modelled from the spec: \<^verbatim>\<open>uuidv4\<close> of the uuid library, which is not in the repository; the
  spec calls its result a random unique token. The library draws sixteen random bytes, sets
  the version in byte 6 (\<^verbatim>\<open>(b & 0x0f) | 0x40\<close>) and the variant in byte 8
  (\<^verbatim>\<open>(b & 0x3f) | 0x80\<close>), and prints the bytes as two lower-case hexadecimal digits each, in
  groups of 4, 2, 2, 2 and 6 bytes joined by hyphens. \<open>rnds\<close> is what the random source
  answers: byte \<open>i\<close> is the digit of weight \<open>256 ^ i\<close> of that number.
\<close>

definition hexDigit :: "nat \<Rightarrow> char" where
  "hexDigit n = ''0123456789abcdef'' ! (n mod 16)"

definition byteToHex :: "nat \<Rightarrow> string" where
  "byteToHex b = [hexDigit (b div 16 mod 16), hexDigit (b mod 16)]"

definition rndByte :: "nat \<Rightarrow> nat \<Rightarrow> nat" where
  "rndByte rnds i = rnds div 256 ^ i mod 256"

definition uuidv4 :: "nat \<Rightarrow> string" where
  "uuidv4 rnds =
     (let b = (\<lambda>i. if i = 6 then rndByte rnds 6 mod 16 + 64
                   else if i = 8 then rndByte rnds 8 mod 64 + 128
                   else rndByte rnds i);
          hex = (\<lambda>indices. concat (map (\<lambda>i. byteToHex (b i)) indices))
      in hex [0, 1, 2, 3] @ ''-'' @ hex [4, 5] @ ''-'' @ hex [6, 7] @ ''-'' @ hex [8, 9] @ ''-'' @
         hex [10, 11, 12, 13, 14, 15])"

text \<open>
  \<^verbatim>\<open>upsertPasswordPolicy\<close>; \<open>rnds\<close> is what \<^verbatim>\<open>uuidv4()\<close> draws when it is called.
\<close>

definition upsertPasswordPolicy ::
  "nat \<Rightarrow> SessionProxy option \<Rightarrow> PasswordPolicy \<Rightarrow> string option
    \<Rightarrow> remote_call list \<times> (error + PasswordPolicy)" where
  "upsertPasswordPolicy rnds session model logicalResourceId =
     (case session of
        None \<Rightarrow> ([], Inr model)
      | Some (SessionProxy client) \<Rightarrow>
          (let params = (toObject model)\<lparr>ResourceId := None\<rparr>
           in case updateAccountPasswordPolicy client params of
                Inl err \<Rightarrow> ([WritePolicy params], Inl (InternalFailure (message err)))
              | Inr response \<Rightarrow>
                  ([WritePolicy params],
                   Inr (if falsy (ResourceId model)
                        then model\<lparr>ResourceId := Some (uuidv4 rnds)\<rparr> else model))))"

text \<open>
  The five handlers of \<^verbatim>\<open>class Resource\<close>. None of them uses \<^verbatim>\<open>callbackContext\<close>, which is left
  out. Create, Update and Delete parse the desired state first and build the progress event
  with the status InProgress and the parsed model; Create and Update then overwrite the model
  and the status, Delete overwrites the status only. Read and List build the event at the end.
\<close>

definition Resource_create ::
  "nat \<Rightarrow> SessionProxy option \<Rightarrow> ResourceHandlerRequest
    \<Rightarrow> remote_call list \<times> (error + ProgressEvent)" where
  "Resource_create rnds session request =
     (case fromObject (desiredResourceState request) of
        Inl err \<Rightarrow> ([], Inl err)
      | Inr model \<Rightarrow>
          (let progress = \<lparr>status = InProgress, resourceModel = Some model, resourceModels = None\<rparr>
           in case upsertPasswordPolicy rnds session model (logicalResourceIdentifier request) of
                (calls, Inl err) \<Rightarrow> (calls, Inl err)
              | (calls, Inr model') \<Rightarrow>
                  (calls, Inr (progress\<lparr>resourceModel := Some model', status := Success\<rparr>))))"

definition Resource_update ::
  "nat \<Rightarrow> SessionProxy option \<Rightarrow> ResourceHandlerRequest
    \<Rightarrow> remote_call list \<times> (error + ProgressEvent)" where
  "Resource_update rnds session request =
     (case fromObject (desiredResourceState request) of
        Inl err \<Rightarrow> ([], Inl err)
      | Inr model \<Rightarrow>
          (let progress = \<lparr>status = InProgress, resourceModel = Some model, resourceModels = None\<rparr>
           in case retrievePasswordPolicy session (ResourceId model)
                     (logicalResourceIdentifier request) of
                (calls, Inl err) \<Rightarrow> (calls, Inl err)
              | (calls, Inr retrieved) \<Rightarrow>
                  (case upsertPasswordPolicy rnds session model (logicalResourceIdentifier request) of
                     (calls', Inl err) \<Rightarrow> (calls @ calls', Inl err)
                   | (calls', Inr model') \<Rightarrow>
                       (calls @ calls',
                        Inr (progress\<lparr>resourceModel := Some model', status := Success\<rparr>)))))"

definition Resource_delete ::
  "SessionProxy option \<Rightarrow> ResourceHandlerRequest
    \<Rightarrow> remote_call list \<times> (error + ProgressEvent)" where
  "Resource_delete session request =
     (case fromObject (desiredResourceState request) of
        Inl err \<Rightarrow> ([], Inl err)
      | Inr model \<Rightarrow>
          (let progress = \<lparr>status = InProgress, resourceModel = Some model, resourceModels = None\<rparr>
           in case retrievePasswordPolicy session (ResourceId model)
                     (logicalResourceIdentifier request) of
                (calls, Inl err) \<Rightarrow> (calls, Inl err)
              | (calls, Inr model') \<Rightarrow>
                  (case session of
                     None \<Rightarrow> (calls, Inr (progress\<lparr>status := Success\<rparr>))
                   | Some (SessionProxy client) \<Rightarrow>
                       (case deleteAccountPasswordPolicy client of
                          Inl err \<Rightarrow>
                            (calls @ [DeletePolicy], Inl (InternalFailure (message err)))
                        | Inr response \<Rightarrow>
                            (calls @ [DeletePolicy], Inr (progress\<lparr>status := Success\<rparr>))))))"

definition Resource_read ::
  "SessionProxy option \<Rightarrow> ResourceHandlerRequest
    \<Rightarrow> remote_call list \<times> (error + ProgressEvent)" where
  "Resource_read session request =
     (case retrievePasswordPolicy session (ResourceId (desiredResourceState request))
             (logicalResourceIdentifier request) of
        (calls, Inl err) \<Rightarrow> (calls, Inl err)
      | (calls, Inr model) \<Rightarrow>
          (calls, Inr \<lparr>status = Success, resourceModel = model, resourceModels = None\<rparr>))"

text \<open>\<^verbatim>\<open>err instanceof exceptions.NotFound\<close>\<close>

fun isNotFound :: "error \<Rightarrow> bool" where
  "isNotFound (NotFound typeName identifier) = True"
| "isNotFound err = False"

definition Resource_list ::
  "SessionProxy option \<Rightarrow> ResourceHandlerRequest
    \<Rightarrow> remote_call list \<times> (error + ProgressEvent)" where
  "Resource_list session request =
     (case retrievePasswordPolicy session (ResourceId (desiredResourceState request))
             (logicalResourceIdentifier request) of
        (calls, Inl err) \<Rightarrow>
          (if \<not> isNotFound err then (calls, Inl err)
           else (calls, Inr \<lparr>status = Success, resourceModel = None, resourceModels = Some []\<rparr>))
      | (calls, Inr model) \<Rightarrow>
          (calls, Inr \<lparr>status = Success, resourceModel = None, resourceModels = Some [model]\<rparr>))"

section \<open>Notation for the statements\<close>

text \<open>
  The object \<^verbatim>\<open>{}\<close>, a model with no field set, and the members of a plain object that are
  declared with the deserializer \<^verbatim>\<open>parseBoolean\<close>, in the order of declaration.
\<close>

definition emptyObject :: PlainObject where
  "emptyObject =
     \<lparr> ResourceId = None, MinimumPasswordLength = Undefined, RequireSymbols = Undefined,
       RequireNumbers = Undefined, RequireUppercaseCharacters = Undefined,
       RequireLowercaseCharacters = Undefined, AllowUsersToChangePassword = Undefined,
       ExpirePasswords = Undefined, MaxPasswordAge = Undefined,
       PasswordReusePrevention = Undefined, HardExpiry = Undefined \<rparr>"

definition emptyPolicy :: PasswordPolicy where
  "emptyPolicy =
     \<lparr> ResourceId = None, MinimumPasswordLength = None, RequireSymbols = None,
       RequireNumbers = None, RequireUppercaseCharacters = None,
       RequireLowercaseCharacters = None, AllowUsersToChangePassword = None,
       ExpirePasswords = None, MaxPasswordAge = None,
       PasswordReusePrevention = None, HardExpiry = None \<rparr>"

definition booleanMembers :: "PlainObject \<Rightarrow> bool raw list" where
  "booleanMembers input =
     [RequireSymbols input, RequireNumbers input, RequireUppercaseCharacters input,
      RequireLowercaseCharacters input, AllowUsersToChangePassword input, HardExpiry input]"

text \<open>
  A request with the given desired state and logical identifier, and a client whose read,
  write and delete operations answer the given results.
\<close>

definition requestFor :: "PlainObject \<Rightarrow> string \<Rightarrow> ResourceHandlerRequest" where
  "requestFor desired logicalId =
     \<lparr> desiredResourceState = desired, previousResourceState = None,
       logicalResourceIdentifier = Some logicalId \<rparr>"

definition stubClient ::
  "AWSError + PlainObject \<Rightarrow> AWSError + unit \<Rightarrow> AWSError + unit \<Rightarrow> IAM" where
  "stubClient readResult writeResult deleteResult =
     \<lparr> getAccountPasswordPolicy = readResult,
       updateAccountPasswordPolicy = (\<lambda>params. writeResult),
       deleteAccountPasswordPolicy = deleteResult \<rparr>"

section \<open>Rounding to a double\<close>

text \<open>
  The exponent that \<open>floorLog2\<close> finds is not above the value, so a value rounds to zero
  exactly when it is at most half of the least positive double, and an integer below
  \<open>2 ^ 53\<close> is its own double.
\<close>

lemma floorLog2_le:
  assumes "0 < a"
  shows "2 powi floorLog2 a \<le> a"
proof -
  obtain p d where pd: "quotient_of a = (p, d)" by (cases "quotient_of a")
  have d: "0 < d" using quotient_of_denom_pos [OF pd] .
  have a: "a = of_int p / of_int d" using quotient_of_div [OF pd] .
  have p: "0 < p" using assms d unfolding a by (simp add: zero_less_divide_iff)
  define e where "e = bitlen p - bitlen d"
  have fl: "floorLog2 a = (if 2 powi e \<le> a then e else e - 1)"
    by (simp add: floorLog2_def pd e_def Let_def)
  have bp: "1 \<le> bitlen p" using p bitlen_eq_zero_iff [of p] bitlen_nonneg [of p] by linarith
  have bd: "1 \<le> bitlen d" using d bitlen_eq_zero_iff [of d] bitlen_nonneg [of d] by linarith
  have lo: "(2::int) ^ nat (bitlen p - 1) \<le> p" using bitlen_bounds [OF p] by simp
  have hi: "d < (2::int) ^ nat (bitlen d)" using bitlen_bounds [OF d] by simp
  have lo': "(2::rat) ^ nat (bitlen p - 1) \<le> of_int p"
    using lo by (metis of_int_le_iff of_int_numeral of_int_power)
  have hi': "(of_int d :: rat) \<le> 2 ^ nat (bitlen d)"
    using hi by (metis less_imp_le of_int_le_iff of_int_numeral of_int_power)
  define m where "m = nat (bitlen p - 1)"
  define k where "k = nat (bitlen d)"
  have "e - 1 = int m - int k"
    using bp bd by (simp add: e_def m_def k_def)
  then have "2 powi (e - 1) = (2::rat) powi (int m - int k)" by simp
  also have "\<dots> = 2 powi int m / 2 powi int k"
    by (simp add: power_int_diff)
  also have "\<dots> = (2::rat) ^ m / 2 ^ k"
    by (simp only: power_int_of_nat)
  also have "\<dots> = (2::rat) ^ nat (bitlen p - 1) / 2 ^ nat (bitlen d)"
    by (simp only: m_def k_def)
  also have "\<dots> \<le> of_int p / of_int d"
    using lo' hi' d p by (intro frac_le) simp_all
  finally have "2 powi (e - 1) \<le> a" unfolding a .
  then show ?thesis by (simp add: fl)
qed

lemma roundHalfEven_of_int: "roundHalfEven (of_int n) = n"
  by (simp add: roundHalfEven_def)

lemma roundHalfEven_zero_iff:
  assumes "0 \<le> x"
  shows "roundHalfEven x = 0 \<longleftrightarrow> x \<le> 1 / 2"
proof
  assume r: "roundHalfEven x = 0"
  define f where "f = \<lfloor>x\<rfloor>"
  have f0: "0 \<le> f" using assms by (simp add: f_def)
  have "roundHalfEven x = f \<or> roundHalfEven x = f + 1"
    by (simp add: roundHalfEven_def Let_def f_def)
  with r f0 have f: "f = 0" by linarith
  from r have "\<not> 1 / 2 < x - of_int f"
    unfolding roundHalfEven_def Let_def f_def [symmetric] f by (simp split: if_splits)
  then show "x \<le> 1 / 2" by (simp add: f)
next
  assume h: "x \<le> 1 / 2"
  with assms have "\<lfloor>x\<rfloor> = 0" by (simp add: floor_eq_iff)
  with h show "roundHalfEven x = 0"
    by (simp add: roundHalfEven_def Let_def)
qed

lemma toDouble_zero_iff: "toDouble x = Fin 0 \<longleftrightarrow> \<bar>x\<bar> \<le> 1 / 2 ^ 1075"
proof (cases "x = 0")
  case True
  then show ?thesis by (simp add: toDouble_def)
next
  case False
  define a where "a = \<bar>x\<bar>"
  define e where "e = max (floorLog2 a) (- 1022)"
  define u where "u = (2::rat) powi (e - 52)"
  define r where "r = of_int (roundHalfEven (a / u)) * u"
  have a: "0 < a" using False by (simp add: a_def)
  have u: "0 < u" by (simp add: u_def)
  have td: "toDouble x =
      (if 2 powi 1024 \<le> r then (if 0 < x then PosInfinity else NegInfinity)
       else Fin (if 0 < x then r else - r))"
    using False by (simp add: toDouble_def Let_def a_def e_def u_def r_def)
  have z: "toDouble x = Fin 0 \<longleftrightarrow> roundHalfEven (a / u) = 0"
  proof
    assume "toDouble x = Fin 0"
    then have "r = 0" unfolding td by (auto split: if_splits)
    with u show "roundHalfEven (a / u) = 0" by (simp add: r_def)
  next
    assume "roundHalfEven (a / u) = 0"
    then have "r = 0" by (simp add: r_def)
    then show "toDouble x = Fin 0" unfolding td by simp
  qed
  have h: "roundHalfEven (a / u) = 0 \<longleftrightarrow> a / u \<le> 1 / 2"
    using a u by (intro roundHalfEven_zero_iff) simp
  have "a / u \<le> 1 / 2 \<longleftrightarrow> a \<le> 1 / 2 ^ 1075"
  proof (cases "- 1022 \<le> floorLog2 a")
    case True
    then have e: "e = floorLog2 a" by (simp add: e_def)
    have "2 powi e \<le> a" unfolding e using floorLog2_le [OF a] .
    moreover have "(2::rat) powi e = 2 powi 52 * u"
      by (simp add: u_def power_int_diff)
    ultimately have 1: "2 powi 52 * u \<le> a" by simp
    have "(2::rat) powi 52 \<le> a / u" using 1 u by (simp add: pos_le_divide_eq)
    moreover have "(2::rat) powi 52 = 4503599627370496" by (simp add: power_int_def)
    ultimately have n1: "\<not> a / u \<le> 1 / 2" by linarith
    have "(2::rat) powi (- 1022) \<le> 2 powi e" using True e by (intro power_int_increasing) simp_all
    with \<open>2 powi e \<le> a\<close> have "(2::rat) powi (- 1022) \<le> a" by simp
    moreover have "(2::rat) powi (- 1075) < 2 powi (- 1022)"
      by (intro power_int_strict_increasing) simp_all
    moreover have "(2::rat) powi (- 1075) = 1 / 2 ^ 1075"
      by (simp only: power_int_minus power_int_numeral divide_inverse mult_1)
    ultimately have n2: "\<not> a \<le> 1 / 2 ^ 1075" by linarith
    from n1 n2 show ?thesis by simp
  next
    case False
    then have e: "e = - 1022" by (simp add: e_def)
    define c :: rat where "c = 2 ^ 1074"
    have c: "0 < c" by (simp add: c_def)
    have "u = 2 powi (- 1074)" by (simp add: u_def e)
    also have "\<dots> = 1 / c"
      unfolding c_def by (simp only: power_int_minus power_int_numeral divide_inverse mult_1)
    finally have u': "u = 1 / c" .
    have "(2::rat) ^ 1075 = 2 * c" unfolding c_def by simp
    then have t: "(1::rat) / 2 ^ 1075 = 1 / (2 * c)" by simp
    show ?thesis unfolding u' t using c by (simp add: field_simps)
  qed
  with z h show ?thesis by (simp add: a_def)
qed

lemma toDouble_of_int:
  assumes "\<bar>n\<bar> < 2 ^ 53"
  shows "toDouble (of_int n) = Fin (of_int n)"
proof (cases "n = 0")
  case True
  then show ?thesis by (simp add: toDouble_def)
next
  case False
  define x :: rat where "x = of_int n"
  define a where "a = \<bar>x\<bar>"
  define e where "e = max (floorLog2 a) (- 1022)"
  define u where "u = (2::rat) powi (e - 52)"
  define r where "r = of_int (roundHalfEven (a / u)) * u"
  have x0: "x \<noteq> 0" using False by (simp add: x_def)
  have a: "0 < a" using x0 by (simp add: a_def)
  have an: "a = of_int \<bar>n\<bar>" by (simp add: a_def x_def)
  have a53: "a < 2 ^ 53"
  proof -
    have "(of_int \<bar>n\<bar> :: rat) < of_int (2 ^ 53)" using assms by (simp only: of_int_less_iff)
    then show ?thesis by (simp add: an)
  qed
  have fl: "floorLog2 a \<le> 52"
  proof (rule ccontr)
    assume "\<not> floorLog2 a \<le> 52"
    then have "53 \<le> floorLog2 a" by simp
    then have "(2::rat) powi 53 \<le> 2 powi floorLog2 a" by (intro power_int_increasing) simp_all
    also have "\<dots> \<le> a" using floorLog2_le [OF a] .
    finally have "(2::rat) powi 53 \<le> a" .
    moreover have "(2::rat) powi 53 = 2 ^ 53" by (simp add: power_int_def)
    ultimately show False using a53 by simp
  qed
  then have e52: "e \<le> 52" by (simp add: e_def)
  define k where "k = nat (52 - e)"
  have ek: "e - 52 = - int k" using e52 by (simp add: k_def)
  have u: "u = 1 / 2 ^ k" by (simp add: u_def ek power_int_minus field_simps)
  have "a / u = of_int (\<bar>n\<bar> * 2 ^ k)" by (simp add: u an)
  then have "roundHalfEven (a / u) = \<bar>n\<bar> * 2 ^ k" by (simp only: roundHalfEven_of_int)
  then have r: "r = a" by (simp add: r_def u an)
  have "(2::rat) ^ 53 \<le> 2 powi 1024" by (simp add: power_int_def)
  with a53 have no: "\<not> 2 powi 1024 \<le> r" unfolding r by linarith
  have "toDouble x =
      (if 2 powi 1024 \<le> r then (if 0 < x then PosInfinity else NegInfinity)
       else Fin (if 0 < x then r else - r))"
    using x0 by (simp add: toDouble_def Let_def a_def e_def u_def r_def)
  with no have "toDouble x = Fin (if 0 < x then a else - a)" by (simp add: r)
  also have "(if 0 < x then a else - a) = x" by (simp add: a_def)
  finally show ?thesis by (simp add: x_def)
qed

section \<open>The fuel of the JSON parser suffices\<close>

text \<open>
  Every successful step of the parser consumes input, so a fuel above twice the length of the
  text is never used up.
\<close>

lemma skipWs_length: "length (skipWs s) \<le> length s"
  unfolding skipWs_def by (rule length_dropWhile_le)

lemma jsonChars_length: "jsonChars s = Some (us, r) \<Longrightarrow> length r < length s"
proof (induction "length s" arbitrary: s us r rule: less_induct)
  case less
  show ?case
  proof (cases s)
    case Nil
    with less.prems show ?thesis by simp
  next
    case (Cons c cs)
    have IH: "length r < length t" if a: "jsonChars t = Some (vs, r)" and b: "length t \<le> length cs"
      for t vs
    proof -
      from b Cons have "length t < length s" by simp
      from less.hyps [OF this a] show ?thesis .
    qed
    from less.prems Cons show ?thesis
      by (auto split: if_splits list.splits option.splits dest: IH)
  qed
qed

lemma jsonNumber_length:
  assumes "jsonNumber s = Some (q, r)"
  shows "length r < length s"
proof -
  define neg where "neg = (s \<noteq> [] \<and> hd s = CHR ''-'')"
  define s1 where "s1 = (if neg then tl s else s)"
  define ip where "ip = (if s1 \<noteq> [] \<and> hd s1 = CHR ''0'' then [hd s1] else takeWhile isDigit s1)"
  define s2 where "s2 = drop (length ip) s1"
  define hasFrac where "hasFrac = (s2 \<noteq> [] \<and> hd s2 = CHR ''.'')"
  define fp where "fp = (if hasFrac then takeWhile isDigit (tl s2) else [])"
  define s3 where "s3 = (if hasFrac then dropWhile isDigit (tl s2) else s2)"
  define hasExp where "hasExp = (s3 \<noteq> [] \<and> (hd s3 = CHR ''e'' \<or> hd s3 = CHR ''E''))"
  define s4 where "s4 = (if hasExp then tl s3 else s3)"
  define expNeg where "expNeg = (hasExp \<and> s4 \<noteq> [] \<and> hd s4 = CHR ''-'')"
  define s5 where "s5 = (if hasExp \<and> s4 \<noteq> [] \<and> (hd s4 = CHR ''+'' \<or> hd s4 = CHR ''-'') then tl s4 else s4)"
  define ep where "ep = (if hasExp then takeWhile isDigit s5 else [])"
  define s6 where "s6 = (if hasExp then dropWhile isDigit s5 else s5)"
  define e where "e = (if expNeg then - decimalValue ep else decimalValue ep) - int (length fp)"
  define m where "m = decimalValue (ip @ fp)"
  have eq: "jsonNumber s =
      (if ip = [] \<or> (hasFrac \<and> fp = []) \<or> (hasExp \<and> ep = []) then None
       else Some (toDouble ((if neg then - 1 else 1) * of_int m * powerOfTen e), s6))"
    by (simp only: jsonNumber_def Let_def neg_def s1_def ip_def s2_def hasFrac_def fp_def s3_def
        hasExp_def s4_def expNeg_def s5_def ep_def s6_def e_def m_def)
  from assms have ip: "ip \<noteq> []" and r: "r = s6"
    unfolding eq by (simp_all split: if_splits)
  have l1: "length s1 \<le> length s" by (simp add: s1_def)
  have lip: "length ip \<le> length s1"
    by (auto simp: ip_def length_takeWhile_le Suc_le_eq)
  have l2: "length s2 < length s1" using ip lip by (cases ip) (simp_all add: s2_def)
  have l3: "length s3 \<le> length s2"
    using length_dropWhile_le [of isDigit "tl s2"] by (auto simp: s3_def)
  have l4: "length s4 \<le> length s3" by (simp add: s4_def)
  have l5: "length s5 \<le> length s4" by (simp add: s5_def)
  have l6: "length s6 \<le> length s5"
    using length_dropWhile_le [of isDigit s5] by (auto simp: s6_def)
  from l1 l2 l3 l4 l5 l6 show ?thesis unfolding r by linarith
qed

lemma jsonValue_length:
  "(jsonValue n s = Ok (v, r) \<longrightarrow> length r < length s) \<and>
   (jsonElements n s = Ok (vs, r) \<longrightarrow> length r < length s) \<and>
   (jsonMembers n s = Ok (ms, r) \<longrightarrow> length r < length s)"
proof (induction n arbitrary: s v vs ms r)
  case 0
  show ?case by simp
next
  case (Suc n)
  have V: "length r' < length s'" if "jsonValue n s' = Ok (v', r')" for s' v' r'
    using Suc that by blast
  have E: "length r' < length s'" if "jsonElements n s' = Ok (vs', r')" for s' vs' r'
    using Suc that by blast
  have M: "length r' < length s'" if "jsonMembers n s' = Ok (ms', r')" for s' ms' r'
    using Suc that by blast
  have W: "length (skipWs t) \<le> length t" for t by (rule skipWs_length)
  have c1: "jsonValue (Suc n) s = Ok (v, r) \<longrightarrow> length r < length s"
  proof
    assume a: "jsonValue (Suc n) s = Ok (v, r)"
    then obtain c cs where s: "s = c # cs" by (cases s) auto
    show "length r < length s"
      using a W [of cs] unfolding s
      by (auto simp: Let_def split: if_splits parsed.splits option.splits
          dest!: E M jsonChars_length jsonNumber_length)
  qed
  have T: "length (skipWs (tl t)) < length t" if "t \<noteq> []" for t
    using that W [of "tl t"] by (cases t) simp_all
  have c2: "jsonElements (Suc n) s = Ok (vs, r) \<longrightarrow> length r < length s"
  proof
    assume a: "jsonElements (Suc n) s = Ok (vs, r)"
    then obtain v' r' where v: "jsonValue n s = Ok (v', r')"
      by (auto split: parsed.splits)
    have l: "length (skipWs r') < length s" using V [OF v] W [of r'] by simp
    show "length r < length s"
      using a l T [of "skipWs r'"] unfolding jsonElements.simps v
      by (auto simp: Let_def split: if_splits parsed.splits dest!: E)
  qed
  have c3: "jsonMembers (Suc n) s = Ok (ms, r) \<longrightarrow> length r < length s"
  proof
    assume a: "jsonMembers (Suc n) s = Ok (ms, r)"
    then have s: "s \<noteq> []" by (auto split: if_splits)
    from a obtain k r0 where k: "jsonChars (tl s) = Some (k, r0)"
      by (auto split: if_splits option.splits)
    have l0: "length (skipWs r0) < length s"
      using jsonChars_length [OF k] W [of r0] s by (cases s) simp_all
    from a k have r1: "skipWs r0 \<noteq> []"
      by (auto simp: Let_def split: if_splits)
    from a k obtain v' r2 where v: "jsonValue n (skipWs (tl (skipWs r0))) = Ok (v', r2)"
      by (auto simp: Let_def split: if_splits parsed.splits)
    have l2: "length (skipWs r2) < length s"
      using V [OF v] W [of r2] T [OF r1] l0 by simp
    show "length r < length s"
      using a k v l2 T [of "skipWs r2"]
      by (auto simp: Let_def split: if_splits parsed.splits dest!: M)
  qed
  from c1 c2 c3 show ?case by blast
qed

lemma jsonValue_fuel:
  "(2 * length s < n \<longrightarrow> jsonValue n s \<noteq> OutOfFuel) \<and>
   (2 * length s + 1 < n \<longrightarrow> jsonElements n s \<noteq> OutOfFuel) \<and>
   (2 * length s + 1 < n \<longrightarrow> jsonMembers n s \<noteq> OutOfFuel)"
proof (induction n arbitrary: s)
  case 0
  show ?case by simp
next
  case (Suc n)
  have V: "jsonValue n s' \<noteq> OutOfFuel" if "2 * length s' < n" for s'
    using Suc that by blast
  have E: "jsonElements n s' \<noteq> OutOfFuel" if "2 * length s' + 1 < n" for s'
    using Suc that by blast
  have M: "jsonMembers n s' \<noteq> OutOfFuel" if "2 * length s' + 1 < n" for s'
    using Suc that by blast
  have W: "length (skipWs t) \<le> length t" for t by (rule skipWs_length)
  have T: "length (skipWs (tl t)) < length t" if "t \<noteq> []" for t
    using that W [of "tl t"] by (cases t) simp_all
  have c1: "2 * length s < Suc n \<longrightarrow> jsonValue (Suc n) s \<noteq> OutOfFuel"
  proof
    assume b: "2 * length s < Suc n"
    show "jsonValue (Suc n) s \<noteq> OutOfFuel"
    proof (cases s)
      case Nil
      then show ?thesis by simp
    next
      case (Cons c cs)
      have "2 * length (skipWs cs) + 1 < n" using b W [of cs] Cons by simp
      note f = E [OF this] M [OF this]
      consider (obj) "c = CHR ''{''" | (arr) "c = CHR ''[''"
        | (other) "c \<noteq> CHR ''{''" "c \<noteq> CHR ''[''"
        by blast
      then show ?thesis
      proof cases
        case obj
        with f show ?thesis unfolding Cons
          by (auto simp: Let_def split: parsed.split)
      next
        case arr
        with f show ?thesis unfolding Cons
          by (auto simp: Let_def split: parsed.split)
      next
        case other
        then show ?thesis unfolding Cons
          by (simp split: option.split)
      qed
    qed
  qed
  have c2: "2 * length s + 1 < Suc n \<longrightarrow> jsonElements (Suc n) s \<noteq> OutOfFuel"
  proof
    assume b: "2 * length s + 1 < Suc n"
    then have v: "jsonValue n s \<noteq> OutOfFuel" by (intro V) simp
    show "jsonElements (Suc n) s \<noteq> OutOfFuel"
    proof (cases "jsonValue n s")
      case (Ok p)
      obtain v' r' where p: "p = (v', r')" by (cases p)
      from Ok p jsonValue_length [of n s v' r'] have l: "length r' < length s" by simp
      have e: "jsonElements n (skipWs (tl (skipWs r'))) \<noteq> OutOfFuel" if "skipWs r' \<noteq> []"
        using T [OF that] W [of r'] l b by (intro E) simp
      show ?thesis unfolding jsonElements.simps Ok p using e
        by (auto simp: Let_def split: parsed.splits)
    next
      case Invalid
      then show ?thesis by simp
    next
      case OutOfFuel
      with v show ?thesis by simp
    qed
  qed
  have c3: "2 * length s + 1 < Suc n \<longrightarrow> jsonMembers (Suc n) s \<noteq> OutOfFuel"
  proof
    assume b: "2 * length s + 1 < Suc n"
    show "jsonMembers (Suc n) s \<noteq> OutOfFuel"
    proof (cases "s \<noteq> [] \<and> hd s = CHR 0x22")
      case False
      then show ?thesis by auto
    next
      case True
      show ?thesis
      proof (cases "jsonChars (tl s)")
        case None
        with True show ?thesis by simp
      next
        case (Some p)
        obtain k r0 where p: "p = (k, r0)" by (cases p)
        have l0: "length (skipWs r0) < length s"
          using jsonChars_length [of "tl s" k r0] Some p W [of r0] True by (cases s) simp_all
        show ?thesis
        proof (cases "skipWs r0 \<noteq> [] \<and> hd (skipWs r0) = CHR '':''")
          case False
          with True Some p show ?thesis by (auto simp: Let_def)
        next
          case colon: True
          have l1: "length (skipWs (tl (skipWs r0))) < length (skipWs r0)"
            using T colon by blast
          have v: "jsonValue n (skipWs (tl (skipWs r0))) \<noteq> OutOfFuel"
            using l0 l1 b by (intro V) simp
          show ?thesis
          proof (cases "jsonValue n (skipWs (tl (skipWs r0)))")
            case (Ok p')
            obtain v' r2 where p': "p' = (v', r2)" by (cases p')
            from Ok p' jsonValue_length [of n "skipWs (tl (skipWs r0))" v' r2]
            have l2: "length r2 < length (skipWs (tl (skipWs r0)))" by simp
            have e: "jsonMembers n (skipWs (tl (skipWs r2))) \<noteq> OutOfFuel" if "skipWs r2 \<noteq> []"
              using T [OF that] W [of r2] l0 l1 l2 b by (intro M) simp
            show ?thesis using True Some p colon Ok p' e
              by (auto simp: Let_def split: parsed.split)
          next
            case Invalid
            with True Some p colon show ?thesis by (simp add: Let_def)
          next
            case OutOfFuel
            with v show ?thesis by simp
          qed
        qed
      qed
    qed
  qed
  from c1 c2 c3 show ?case by blast
qed

lemma JSON_parse_fuel: "jsonValue (2 * length s + 1) s \<noteq> OutOfFuel"
  using jsonValue_fuel [of s "2 * length s + 1"] by simp

lemma JSON_parse_None:
  "JSON_parse text = None \<Longrightarrow>
     jsonValue (2 * length (skipWs text) + 1) (skipWs text) = Invalid \<or>
     (\<exists>v r. jsonValue (2 * length (skipWs text) + 1) (skipWs text) = Ok (v, r) \<and> skipWs r \<noteq> [])"
  using JSON_parse_fuel [of "skipWs text"]
  by (auto simp: JSON_parse_def Let_def split: parsed.splits if_splits)

section \<open>Parsing raw field values\<close>

lemma JSON_parse_true: "JSON_parse ''true'' = Some (JBool True)"
  by code_simp

lemma JSON_parse_false: "JSON_parse ''false'' = Some (JBool False)"
  by code_simp

lemma parseBoolean_Native: "parseBoolean (Native b) = Inr (Some b)"
  by (cases b) (simp_all add: parseBoolean_def toLowerCase_def toLowerChar_def
      JSON_parse_true JSON_parse_false)

lemma parseBoolean_Str:
  "parseBoolean (Str s) =
     (case JSON_parse (toLowerCase s) of None \<Rightarrow> Inl SyntaxError | Some v \<Rightarrow> Inr (Some (truthy v)))"
  by (simp add: parseBoolean_def)

lemma parseBoolean_error: "parseBoolean v = Inl e \<Longrightarrow> e = SyntaxError"
  by (auto simp: parseBoolean_def split: if_splits option.splits)

lemma parseBoolean_fails_iff:
  "(parseBoolean v = Inl SyntaxError) =
     (v \<noteq> Undefined \<and> v \<noteq> Null \<and> JSON_parse (toLowerCase (String_of v)) = None)"
  by (auto simp: parseBoolean_def split: option.splits)

lemma jsonNumber_one: "jsonNumber ''1'' = Some (toDouble 1, [])"
  by (simp add: jsonNumber_def Let_def isDigit_def decimalValue_def digitValue_def powerOfTen_def)

lemma jsonNumber_zero: "jsonNumber ''0'' = Some (toDouble 0, [])"
  by (simp add: jsonNumber_def Let_def isDigit_def decimalValue_def digitValue_def powerOfTen_def)

lemma jsonNumber_tiny: "jsonNumber ''1e-400'' = Some (toDouble (1 / 10 ^ 400), [])"
  by (simp add: jsonNumber_def Let_def isDigit_def decimalValue_def digitValue_def powerOfTen_def)

lemma JSON_parse_one: "JSON_parse ''1'' = Some (JNum (toDouble 1))"
  by (simp add: JSON_parse_def skipWs_def isJsonWs_def isDigit_def jsonNumber_one eval_nat_numeral)

lemma JSON_parse_zero: "JSON_parse ''0'' = Some (JNum (toDouble 0))"
  by (simp add: JSON_parse_def skipWs_def isJsonWs_def isDigit_def jsonNumber_zero eval_nat_numeral)

lemma JSON_parse_tiny: "JSON_parse ''1e-400'' = Some (JNum (toDouble (1 / 10 ^ 400)))"
  by (simp add: JSON_parse_def skipWs_def isJsonWs_def isDigit_def jsonNumber_tiny eval_nat_numeral)

lemma JSON_parse_null: "JSON_parse ''null'' = Some JNull"
  by code_simp

lemma toDouble_one: "toDouble 1 = Fin 1"
  using toDouble_of_int [of 1] by simp

lemma toDouble_zero: "toDouble 0 = Fin 0"
  by (simp add: toDouble_def)

lemma toDouble_tiny: "toDouble (1 / 10 ^ 400) = Fin 0"
  by (simp add: toDouble_zero_iff)

lemma JSON_parse_numbers:
  "JSON_parse ''1'' = Some (JNum (Fin 1))"
  "JSON_parse ''0'' = Some (JNum (Fin 0))"
  "JSON_parse ''1e-400'' = Some (JNum (Fin 0))"
  by (simp_all only: JSON_parse_one JSON_parse_zero JSON_parse_tiny toDouble_one toDouble_zero
      toDouble_tiny)

lemma toLowerCase_digits:
  "toLowerCase ''1'' = ''1''" "toLowerCase ''0'' = ''0''" "toLowerCase ''null'' = ''null''"
  "toLowerCase ''1e-400'' = ''1e-400''" "toLowerCase ''True'' = ''true''"
  by code_simp+

text \<open>
  C3, as the code has it. The strings \<^verbatim>\<open>"true"\<close>, \<^verbatim>\<open>"false"\<close>, \<^verbatim>\<open>"TRUE"\<close>, \<^verbatim>\<open>"FALSE"\<close>, the
  booleans and an absent value (\<^verbatim>\<open>undefined\<close> or \<^verbatim>\<open>null\<close>) parse to true, false, true, false,
  true, false and an absent field. A string raises the \<^verbatim>\<open>SyntaxError\<close> of \<^verbatim>\<open>JSON.parse\<close>
  exactly when its lower-cased form is not a JSON text; a string whose lower-cased form is a
  JSON text yields the truthiness of that value, so every spelling of true and false in any
  letter case is accepted, \<^verbatim>\<open>"True"\<close> and \<^verbatim>\<open>"1"\<close> yield true, \<^verbatim>\<open>"0"\<close>, \<^verbatim>\<open>"null"\<close> and
  \<^verbatim>\<open>"1e-400"\<close> (a literal that rounds to the double zero) yield false, while \<^verbatim>\<open>"yes"\<close> and the
  empty string raise.
\<close>

theorem parseBoolean_cases:
  "parseBoolean (Str ''true'') = Inr (Some True) \<and>
   parseBoolean (Str ''false'') = Inr (Some False) \<and>
   parseBoolean (Str ''TRUE'') = Inr (Some True) \<and>
   parseBoolean (Str ''FALSE'') = Inr (Some False) \<and>
   parseBoolean (Native True) = Inr (Some True) \<and>
   parseBoolean (Native False) = Inr (Some False) \<and>
   parseBoolean Undefined = Inr None \<and>
   parseBoolean Null = Inr None \<and>
   (\<forall>s. (parseBoolean (Str s) = Inl SyntaxError) = (JSON_parse (toLowerCase s) = None)) \<and>
   (\<forall>s v. JSON_parse (toLowerCase s) = Some v \<longrightarrow> parseBoolean (Str s) = Inr (Some (truthy v))) \<and>
   (\<forall>s. toLowerCase s = ''true'' \<longrightarrow> parseBoolean (Str s) = Inr (Some True)) \<and>
   (\<forall>s. toLowerCase s = ''false'' \<longrightarrow> parseBoolean (Str s) = Inr (Some False)) \<and>
   parseBoolean (Str ''yes'') = Inl SyntaxError \<and>
   parseBoolean (Str []) = Inl SyntaxError \<and>
   parseBoolean (Str ''True'') = Inr (Some True) \<and>
   parseBoolean (Str ''1'') = Inr (Some True) \<and>
   parseBoolean (Str ''0'') = Inr (Some False) \<and>
   parseBoolean (Str ''null'') = Inr (Some False) \<and>
   parseBoolean (Str ''1e-400'') = Inr (Some False)"
proof -
  have a: "parseBoolean (Str ''true'') = Inr (Some True)" by code_simp
  have b: "parseBoolean (Str ''false'') = Inr (Some False)" by code_simp
  have c: "parseBoolean (Str ''TRUE'') = Inr (Some True)" by code_simp
  have d: "parseBoolean (Str ''FALSE'') = Inr (Some False)" by code_simp
  have e: "parseBoolean Undefined = Inr None" "parseBoolean Null = Inr None"
    by (simp_all add: parseBoolean_def)
  have f: "\<forall>s. (parseBoolean (Str s) = Inl SyntaxError) = (JSON_parse (toLowerCase s) = None)"
    by (simp add: parseBoolean_fails_iff)
  have g: "\<forall>s v. JSON_parse (toLowerCase s) = Some v \<longrightarrow> parseBoolean (Str s) = Inr (Some (truthy v))"
    by (simp add: parseBoolean_Str)
  have h: "\<forall>s. toLowerCase s = ''true'' \<longrightarrow> parseBoolean (Str s) = Inr (Some True)"
    by (simp add: parseBoolean_Str JSON_parse_true)
  have i: "\<forall>s. toLowerCase s = ''false'' \<longrightarrow> parseBoolean (Str s) = Inr (Some False)"
    by (simp add: parseBoolean_Str JSON_parse_false)
  have j: "parseBoolean (Str ''yes'') = Inl SyntaxError" by code_simp
  have k: "parseBoolean (Str []) = Inl SyntaxError" by code_simp
  have l: "parseBoolean (Str ''True'') = Inr (Some True)"
    by (simp add: parseBoolean_Str toLowerCase_digits JSON_parse_true)
  have m: "parseBoolean (Str ''1'') = Inr (Some True)"
    by (simp add: parseBoolean_Str toLowerCase_digits JSON_parse_numbers)
  have n: "parseBoolean (Str ''0'') = Inr (Some False)"
    by (simp add: parseBoolean_Str toLowerCase_digits JSON_parse_numbers)
  have p: "parseBoolean (Str ''null'') = Inr (Some False)"
    by (simp add: parseBoolean_Str toLowerCase_digits JSON_parse_null)
  have q: "parseBoolean (Str ''1e-400'') = Inr (Some False)"
    by (simp add: parseBoolean_Str toLowerCase_digits JSON_parse_numbers)
  from a b c d e f g h i j k l m n p q parseBoolean_Native [of True] parseBoolean_Native [of False]
  show ?thesis by blast
qed

text \<open>
  The mixed-case spelling \<^verbatim>\<open>"tRuE"\<close> is true, and \<^verbatim>\<open>"0"\<close> is the JSON number zero: false.
\<close>

theorem parseBoolean_cases_witness:
  "toLowerCase ''tRuE'' = ''true'' \<and> parseBoolean (Str ''tRuE'') = Inr (Some True) \<and>
   JSON_parse (toLowerCase ''0'') = Some (JNum (Fin 0)) \<and>
   parseBoolean (Str ''0'') = Inr (Some False)"
proof -
  have l: "toLowerCase ''tRuE'' = ''true''" by code_simp
  have z: "JSON_parse (toLowerCase ''0'') = Some (JNum (Fin 0))"
    by (simp add: toLowerCase_digits JSON_parse_numbers)
  from parseBoolean_cases l have "parseBoolean (Str ''tRuE'') = Inr (Some True)" by blast
  moreover from parseBoolean_cases z
  have "parseBoolean (Str ''0'') = Inr (Some (truthy (JNum (Fin 0))))"
    by blast
  ultimately show ?thesis using l z by simp
qed

text \<open>
  C3 as stated fails: \<^verbatim>\<open>"1"\<close> is none of the four listed strings and parses to true, with no
  error.
\<close>

theorem parseBoolean_other_string_counterexample:
  "''1'' \<notin> {''true'', ''false'', ''TRUE'', ''FALSE''} \<and> parseBoolean (Str ''1'') = Inr (Some True)"
proof -
  have "parseBoolean (Str ''1'') = Inr (Some True)"
    by (simp add: parseBoolean_Str toLowerCase_digits JSON_parse_numbers)
  then show ?thesis by simp
qed

text \<open>
  What \<^verbatim>\<open>parseInteger\<close> does on the inputs it handles: an absent value stays absent, a string
  of decimal digits (with or without a minus sign) has its base-10 value, and the later
  revision truncates a number toward zero.
\<close>

lemma parseInteger_absent:
  "parseInteger Undefined = None" "parseInteger Null = None"
  "parseInteger_part_003 Undefined = None" "parseInteger_part_003 Null = None"
  by simp_all

lemma isDigit_not_space: "isDigit c \<Longrightarrow> \<not> isStrWhiteSpace c"
  by (auto simp: isDigit_def isStrWhiteSpace_def)

lemma isDigit_not_sign: "isDigit c \<Longrightarrow> c \<noteq> CHR ''+'' \<and> c \<noteq> CHR ''-''"
  by (auto simp: isDigit_def)

lemma parseInt10_digits:
  assumes "ds \<noteq> []" and "\<forall>c \<in> set ds. isDigit c"
  shows "parseInt10 ds = Fin (of_int (decimalValue ds))"
    and "parseInt10 (CHR ''-'' # ds) = Fin (of_int (- decimalValue ds))"
proof -
  from assms obtain d ds' where ds: "ds = d # ds'" and d: "isDigit d"
    by (cases ds) auto
  have t: "takeWhile isDigit ds = ds" using assms by (simp add: takeWhile_eq_all_conv)
  show "parseInt10 ds = Fin (of_int (decimalValue ds))"
    using t isDigit_not_space [OF d] isDigit_not_sign [OF d] assms(1)
    unfolding parseInt10_def by (simp add: ds Let_def)
  have "\<not> isStrWhiteSpace (CHR ''-'')" by (simp add: isStrWhiteSpace_def)
  then show "parseInt10 (CHR ''-'' # ds) = Fin (of_int (- decimalValue ds))"
    using assms(1) unfolding parseInt10_def by (simp add: Let_def t)
qed

lemma parseInteger_digits:
  assumes "ds \<noteq> []" and "\<forall>c \<in> set ds. isDigit c"
  shows "parseInteger (Str ds) = Some (Fin (of_int (decimalValue ds)))"
    and "parseInteger_part_003 (Str ds) = Some (Fin (of_int (decimalValue ds)))"
  using assms parseInt10_digits(1) [OF assms] by simp_all

lemma truncRat_toward_zero:
  "(0 \<le> q \<longrightarrow> of_int (truncRat q) \<le> q \<and> q < of_int (truncRat q) + 1) \<and>
   (q \<le> 0 \<longrightarrow> q \<le> of_int (truncRat q) \<and> of_int (truncRat q) - 1 < q)"
  unfolding truncRat_def by (auto; linarith)

lemma truncRat_of_int: "truncRat (of_int n) = n"
  by (simp add: truncRat_def)

lemma parseInteger_part_003_trunc:
  "parseInteger_part_003 (Native (Fin q)) = Some (Fin (of_int (truncRat q)))"
  by simp

text \<open>
  C1: a numeric string parses to its base-10 value, a fractional number truncates toward zero,
  an absent input yields an absent field. In \<^verbatim>\<open>src/src/handlers.ts\<close> the number \<^verbatim>\<open>8.7\<close> is not
  truncated to 8: \<^verbatim>\<open>parseInteger\<close> has no branch for numbers and returns \<^verbatim>\<open>undefined\<close>. The
  revision of the function in \<^verbatim>\<open>src/unnamed/part_003\<close> returns 8.
\<close>

theorem parseInteger_number_dropped:
  "parseInteger (Native (Fin (87 / 10))) = None \<and>
   parseInteger (Native (Fin 8)) = None \<and>
   parseInteger_part_003 (Native (Fin (87 / 10))) = Some (Fin 8)"
proof -
  have "parseInteger_part_003 (Native (Fin (87 / 10))) = Some (Fin 8)" by code_simp
  then show ?thesis by simp
qed

section \<open>Retrieving the policy\<close>

lemma orElse_simps:
  "orElse None b = b"
  "orElse (Some []) b = b"
  "s \<noteq> [] \<Longrightarrow> orElse (Some s) b = Some s"
  by (simp_all add: orElse_def falsy_def)

lemma retrieve_no_session: "retrievePasswordPolicy None resourceId logicalResourceId = ([], Inr None)"
  by (simp add: retrievePasswordPolicy_def)

lemma retrieve_failure:
  "getAccountPasswordPolicy client = Inl err \<Longrightarrow>
   retrievePasswordPolicy (Some (SessionProxy client)) resourceId logicalResourceId =
     ([ReadPolicy], Inl (retrieveCatch resourceId logicalResourceId (AWSFailure err)))"
  by (simp add: retrievePasswordPolicy_def)

lemma retrieve_calls:
  "fst (retrievePasswordPolicy session resourceId logicalResourceId) =
     (case session of None \<Rightarrow> [] | Some s \<Rightarrow> [ReadPolicy])"
  by (simp add: retrievePasswordPolicy_def split: option.split SessionProxy.split sum.split)

lemma upsert_calls:
  "fst (upsertPasswordPolicy rnds session model logicalResourceId) =
     (case session of None \<Rightarrow> [] | Some s \<Rightarrow> [WritePolicy (serialize model)])"
  by (simp add: upsertPasswordPolicy_def serialize_def Let_def
      split: option.split SessionProxy.split sum.split)

text \<open>
  C2: with a session, when the remote read fails with the code \<^verbatim>\<open>NoSuchEntity\<close>, retrieve fails
  with \<^verbatim>\<open>NotFound\<close> carrying \<^verbatim>\<open>resourceId || logicalResourceId\<close>: the resourceId when there is
  one (and it is not the empty string), the logicalResourceId otherwise. Any other remote
  failure is thrown again as it is.
\<close>

theorem retrieve_remote_failure:
  "getAccountPasswordPolicy client = Inl err \<Longrightarrow>
   (code err = Some ''NoSuchEntity'' \<longrightarrow>
      retrievePasswordPolicy (Some (SessionProxy client)) resourceId logicalResourceId =
        ([ReadPolicy], Inl (NotFound TYPE_NAME (orElse resourceId logicalResourceId)))) \<and>
   (code err \<noteq> Some ''NoSuchEntity'' \<longrightarrow>
      retrievePasswordPolicy (Some (SessionProxy client)) resourceId logicalResourceId =
        ([ReadPolicy], Inl (AWSFailure err))) \<and>
   (\<forall>s. resourceId = Some s \<and> s \<noteq> [] \<longrightarrow> orElse resourceId logicalResourceId = Some s) \<and>
   (resourceId = None \<or> resourceId = Some [] \<longrightarrow>
      orElse resourceId logicalResourceId = logicalResourceId)"
  by (auto simp: retrieve_failure orElse_simps)

theorem retrieve_remote_failure_witness:
  "retrievePasswordPolicy
     (Some (SessionProxy \<lparr>getAccountPasswordPolicy = Inl (AWSError (Some ''NoSuchEntity'') ''no policy''),
        updateAccountPasswordPolicy = (\<lambda>p. Inr ()), deleteAccountPasswordPolicy = Inr ()\<rparr>))
     (Some ''id-1'') (Some ''Policy'')
   = ([ReadPolicy], Inl (NotFound TYPE_NAME (Some ''id-1''))) \<and>
   retrievePasswordPolicy
     (Some (SessionProxy \<lparr>getAccountPasswordPolicy = Inl (AWSError (Some ''Throttling'') ''slow down''),
        updateAccountPasswordPolicy = (\<lambda>p. Inr ()), deleteAccountPasswordPolicy = Inr ()\<rparr>))
     None (Some ''Policy'')
   = ([ReadPolicy], Inl (AWSFailure (AWSError (Some ''Throttling'') ''slow down'')))"
proof -
  let ?c1 = "\<lparr>getAccountPasswordPolicy = Inl (AWSError (Some ''NoSuchEntity'') ''no policy''),
        updateAccountPasswordPolicy = (\<lambda>p. Inr ()), deleteAccountPasswordPolicy = Inr ()\<rparr>"
  let ?c2 = "\<lparr>getAccountPasswordPolicy = Inl (AWSError (Some ''Throttling'') ''slow down''),
        updateAccountPasswordPolicy = (\<lambda>p. Inr ()), deleteAccountPasswordPolicy = Inr ()\<rparr>"
  have g1: "getAccountPasswordPolicy ?c1 = Inl (AWSError (Some ''NoSuchEntity'') ''no policy'')"
    by simp
  have g2: "getAccountPasswordPolicy ?c2 = Inl (AWSError (Some ''Throttling'') ''slow down'')"
    by simp
  from retrieve_remote_failure [OF g1, of "Some ''id-1''" "Some ''Policy''"]
       retrieve_remote_failure [OF g2, of None "Some ''Policy''"]
  show ?thesis by simp
qed

section \<open>Parsing and serializing the model\<close>

lemma fromObject_scenario:
  "fromObject (emptyObject\<lparr>MinimumPasswordLength := Str ''8'', RequireSymbols := Str ''true''\<rparr>) =
     Inr (emptyPolicy\<lparr>MinimumPasswordLength := Some (Fin 8), RequireSymbols := Some True\<rparr>)"
  by code_simp


lemma fromObject_error: "fromObject input = Inl e \<Longrightarrow> e = SyntaxError"
  by (auto simp: fromObject_def bindE_def split: sum.splits dest: parseBoolean_error)

lemma fromObject_fails_iff:
  "(fromObject input = Inl SyntaxError) =
     (\<exists>v \<in> set (booleanMembers input). parseBoolean v = Inl SyntaxError)"
  by (auto simp: fromObject_def bindE_def booleanMembers_def split: sum.splits
      dest: parseBoolean_error)

lemma fromObject_integers:
  "fromObject input = Inr m \<Longrightarrow>
     MinimumPasswordLength m = parseInteger (MinimumPasswordLength input) \<and>
     MaxPasswordAge m = parseInteger (MaxPasswordAge input) \<and>
     PasswordReusePrevention m = parseInteger (PasswordReusePrevention input)"
  by (auto simp: fromObject_def bindE_def split: sum.splits)

lemma fromObject_isl_integers:
  "isl (fromObject (input\<lparr>MinimumPasswordLength := a, MaxPasswordAge := b,
      PasswordReusePrevention := c\<rparr>)) = isl (fromObject input)"
  by (simp add: fromObject_def bindE_def split: sum.splits)

lemma parseInt10_NaN:
  "s \<noteq> [] \<Longrightarrow> \<not> isDigit (hd s) \<Longrightarrow> \<not> isStrWhiteSpace (hd s) \<Longrightarrow> hd s \<noteq> CHR ''+'' \<Longrightarrow>
   hd s \<noteq> CHR ''-'' \<Longrightarrow> parseInt10 s = NaN"
  by (cases s) (simp_all add: parseInt10_def)

text \<open>
  C4, as the code has it. Parsing fails only with the \<^verbatim>\<open>SyntaxError\<close> of \<^verbatim>\<open>JSON.parse\<close>, and it
  fails exactly when some boolean member is present and its lower-cased string form is not a
  JSON text. The integer members never make it fail: the parsed field is what
  \<^verbatim>\<open>parseInteger\<close> returns, and for a non-empty string that does not start with a digit, a
  sign or white space that is \<^verbatim>\<open>NaN\<close>.
\<close>

theorem fromObject_failure:
  "(\<forall>e. fromObject input = Inl e \<longrightarrow> e = SyntaxError) \<and>
   ((fromObject input = Inl SyntaxError) =
      (\<exists>v \<in> set (booleanMembers input).
          v \<noteq> Undefined \<and> v \<noteq> Null \<and> JSON_parse (toLowerCase (String_of v)) = None)) \<and>
   (\<forall>a b c. isl (fromObject (input\<lparr>MinimumPasswordLength := a, MaxPasswordAge := b,
        PasswordReusePrevention := c\<rparr>)) = isl (fromObject input)) \<and>
   (\<forall>m. fromObject input = Inr m \<longrightarrow>
        MinimumPasswordLength m = parseInteger (MinimumPasswordLength input) \<and>
        MaxPasswordAge m = parseInteger (MaxPasswordAge input) \<and>
        PasswordReusePrevention m = parseInteger (PasswordReusePrevention input)) \<and>
   (\<forall>s. s \<noteq> [] \<and> \<not> isDigit (hd s) \<and> \<not> isStrWhiteSpace (hd s) \<and> hd s \<noteq> CHR ''+'' \<and>
        hd s \<noteq> CHR ''-'' \<longrightarrow> parseInteger (Str s) = Some NaN)"
proof -
  have a: "\<forall>e. fromObject input = Inl e \<longrightarrow> e = SyntaxError"
    using fromObject_error by blast
  have b: "(fromObject input = Inl SyntaxError) =
      (\<exists>v \<in> set (booleanMembers input).
          v \<noteq> Undefined \<and> v \<noteq> Null \<and> JSON_parse (toLowerCase (String_of v)) = None)"
    by (simp only: fromObject_fails_iff parseBoolean_fails_iff)
  have c: "\<forall>m. fromObject input = Inr m \<longrightarrow>
        MinimumPasswordLength m = parseInteger (MinimumPasswordLength input) \<and>
        MaxPasswordAge m = parseInteger (MaxPasswordAge input) \<and>
        PasswordReusePrevention m = parseInteger (PasswordReusePrevention input)"
    using fromObject_integers by blast
  have d: "\<forall>s. s \<noteq> [] \<and> \<not> isDigit (hd s) \<and> \<not> isStrWhiteSpace (hd s) \<and> hd s \<noteq> CHR ''+'' \<and>
        hd s \<noteq> CHR ''-'' \<longrightarrow> parseInteger (Str s) = Some NaN"
    by (simp add: parseInt10_NaN)
  from a b c d fromObject_isl_integers show ?thesis by blast
qed

text \<open>\<^verbatim>\<open>{HardExpiry: "yes"}\<close> fails to parse; the integer string \<^verbatim>\<open>"ninety"\<close> becomes \<^verbatim>\<open>NaN\<close>.\<close>

theorem fromObject_failure_witness:
  "fromObject (emptyObject\<lparr>HardExpiry := Str ''yes''\<rparr>) = Inl SyntaxError \<and>
   parseInteger (Str ''ninety'') = Some NaN"
proof -
  let ?i = "emptyObject\<lparr>HardExpiry := Str ''yes''\<rparr>"
  have m: "Str ''yes'' \<in> set (booleanMembers ?i)"
    by (simp add: booleanMembers_def)
  have j: "JSON_parse (toLowerCase (String_of (Str ''yes''))) = None" by code_simp
  have "\<exists>v \<in> set (booleanMembers ?i).
      v \<noteq> Undefined \<and> v \<noteq> Null \<and> JSON_parse (toLowerCase (String_of v)) = None"
    using m j by blast
  with fromObject_failure [of ?i] have 1: "fromObject ?i = Inl SyntaxError" by blast
  have n: "''ninety'' \<noteq> [] \<and> \<not> isDigit (hd ''ninety'') \<and> \<not> isStrWhiteSpace (hd ''ninety'') \<and>
      hd ''ninety'' \<noteq> CHR ''+'' \<and> hd ''ninety'' \<noteq> CHR ''-''"
    by (simp add: isDigit_def isStrWhiteSpace_def)
  with fromObject_failure [of emptyObject] have 2: "parseInteger (Str ''ninety'') = Some NaN"
    by blast
  from 1 2 show ?thesis by simp
qed

text \<open>
  C4 as stated fails: \<^verbatim>\<open>{MaxPasswordAge: "ninety"}\<close> parses without an error, to a model whose
  \<^verbatim>\<open>MaxPasswordAge\<close> is \<^verbatim>\<open>NaN\<close>.
\<close>

theorem fromObject_integer_counterexample:
  "fromObject (emptyObject\<lparr>MaxPasswordAge := Str ''ninety''\<rparr>) =
     Inr (emptyPolicy\<lparr>MaxPasswordAge := Some NaN\<rparr>)"
  by code_simp

lemma parseBoolean_absent: "parseBoolean Undefined = Inr None" "parseBoolean Null = Inr None"
  by (simp_all add: parseBoolean_def)

lemma parseBoolean_toPlain: "parseBoolean (toPlain x) = Inr x"
  by (cases x) (simp_all add: parseBoolean_Native parseBoolean_absent)

lemma parseInteger_toPlain: "parseInteger (toPlain x) = None"
  by (cases x) simp_all

lemma toObject_roundtrip:
  "fromObject (toObject m) =
     Inr (m\<lparr>MinimumPasswordLength := None, ExpirePasswords := None, MaxPasswordAge := None,
            PasswordReusePrevention := None\<rparr>)"
  by (simp add: fromObject_def toObject_def bindE_def parseBoolean_toPlain parseInteger_toPlain)

lemma serialize_roundtrip:
  "fromObject (serialize m) =
     Inr (m\<lparr>ResourceId := None, MinimumPasswordLength := None, ExpirePasswords := None,
            MaxPasswordAge := None, PasswordReusePrevention := None\<rparr>)"
  by (simp add: fromObject_def serialize_def toObject_def bindE_def parseBoolean_toPlain
      parseInteger_toPlain)

text \<open>
  C5: parsing the serialized model gives the model back, without its \<^verbatim>\<open>ResourceId\<close>. In
  \<^verbatim>\<open>src/src/handlers.ts\<close> the model \<^verbatim>\<open>{MinimumPasswordLength: 8, RequireSymbols: true}\<close>
  comes back as \<^verbatim>\<open>{RequireSymbols: true}\<close>: serialization writes the number 8, and
  \<^verbatim>\<open>parseInteger\<close> drops every number (lemma \<open>serialize_roundtrip\<close> is the general form).
\<close>

theorem roundtrip_loses_integers:
  "fromObject (serialize (emptyPolicy\<lparr>MinimumPasswordLength := Some (Fin 8),
      RequireSymbols := Some True\<rparr>)) = Inr (emptyPolicy\<lparr>RequireSymbols := Some True\<rparr>)"
  by code_simp


section \<open>The remote calls of the handlers\<close>

lemma upsert_session:
  "upsertPasswordPolicy rnds (Some (SessionProxy client)) model logicalResourceId =
     (case updateAccountPasswordPolicy client (serialize model) of
        Inl err \<Rightarrow> ([WritePolicy (serialize model)], Inl (InternalFailure (message err)))
      | Inr response \<Rightarrow>
          ([WritePolicy (serialize model)],
           Inr (if falsy (ResourceId model) then model\<lparr>ResourceId := Some (uuidv4 rnds)\<rparr> else model)))"
  by (simp add: upsertPasswordPolicy_def serialize_def Let_def split: sum.split)

lemma upsert_no_session: "upsertPasswordPolicy rnds None model logicalResourceId = ([], Inr model)"
  by (simp add: upsertPasswordPolicy_def)

lemma serialize_ResourceId: "ResourceId (serialize model) = None"
  by (simp add: serialize_def)

lemma create_calls:
  "fst (Resource_create rnds session request) =
     (case fromObject (desiredResourceState request) of
        Inl err \<Rightarrow> []
      | Inr model \<Rightarrow> fst (upsertPasswordPolicy rnds session model (logicalResourceIdentifier request)))"
  by (auto simp: Resource_create_def Let_def split: sum.split prod.split)

lemma update_calls:
  "fst (Resource_update rnds session request) =
     (case fromObject (desiredResourceState request) of
        Inl err \<Rightarrow> []
      | Inr model \<Rightarrow>
          (case snd (retrievePasswordPolicy session (ResourceId model)
                       (logicalResourceIdentifier request)) of
             Inl err \<Rightarrow>
               fst (retrievePasswordPolicy session (ResourceId model)
                      (logicalResourceIdentifier request))
           | Inr retrieved \<Rightarrow>
               fst (retrievePasswordPolicy session (ResourceId model)
                      (logicalResourceIdentifier request)) @
               fst (upsertPasswordPolicy rnds session model (logicalResourceIdentifier request))))"
  by (auto simp: Resource_update_def Let_def split: sum.split prod.split)

lemma delete_calls:
  "fst (Resource_delete session request) =
     (case fromObject (desiredResourceState request) of
        Inl err \<Rightarrow> []
      | Inr model \<Rightarrow>
          (case snd (retrievePasswordPolicy session (ResourceId model)
                       (logicalResourceIdentifier request)) of
             Inl err \<Rightarrow>
               fst (retrievePasswordPolicy session (ResourceId model)
                      (logicalResourceIdentifier request))
           | Inr retrieved \<Rightarrow>
               fst (retrievePasswordPolicy session (ResourceId model)
                      (logicalResourceIdentifier request)) @
               (case session of None \<Rightarrow> [] | Some s \<Rightarrow> [DeletePolicy])))"
  by (auto simp: Resource_delete_def Let_def
      split: sum.split prod.split option.split SessionProxy.split)

lemma read_calls:
  "fst (Resource_read session request) =
     fst (retrievePasswordPolicy session (ResourceId (desiredResourceState request))
            (logicalResourceIdentifier request))"
  by (auto simp: Resource_read_def split: sum.split prod.split)

lemma list_calls:
  "fst (Resource_list session request) =
     fst (retrievePasswordPolicy session (ResourceId (desiredResourceState request))
            (logicalResourceIdentifier request))"
  by (auto simp: Resource_list_def split: sum.split prod.split)

lemma write_in_calls:
  "WritePolicy p \<in> set (fst (retrievePasswordPolicy session r l)) = False"
  "WritePolicy p \<in> set (fst (upsertPasswordPolicy rnds session model l)) =
     (session \<noteq> None \<and> p = serialize model)"
  by (auto simp: retrieve_calls upsert_calls split: option.splits)

lemma create_writes:
  "WritePolicy p \<in> set (fst (Resource_create rnds session request)) \<Longrightarrow> ResourceId p = None"
  by (auto simp: create_calls write_in_calls serialize_ResourceId split: sum.splits)

lemma update_writes:
  assumes "WritePolicy p \<in> set (fst (Resource_update rnds session request))"
  shows "ResourceId p = None"
proof (cases "fromObject (desiredResourceState request)")
  case (Inl e)
  with assms show ?thesis by (simp add: update_calls)
next
  case (Inr model)
  with assms show ?thesis
    by (cases "snd (retrievePasswordPolicy session (ResourceId model)
                      (logicalResourceIdentifier request))")
       (auto simp: update_calls write_in_calls serialize_ResourceId)
qed

lemma delete_writes: "WritePolicy p \<notin> set (fst (Resource_delete session request))"
proof (cases "fromObject (desiredResourceState request)")
  case (Inl e)
  then show ?thesis by (simp add: delete_calls)
next
  case (Inr model)
  then show ?thesis
    by (cases "snd (retrievePasswordPolicy session (ResourceId model)
                      (logicalResourceIdentifier request))")
       (auto simp: delete_calls write_in_calls split: option.splits)
qed

lemma read_writes: "WritePolicy p \<notin> set (fst (Resource_read session request))"
  by (simp add: read_calls write_in_calls)

lemma list_writes: "WritePolicy p \<notin> set (fst (Resource_list session request))"
  by (simp add: list_calls write_in_calls)


section \<open>Create\<close>

lemma uuidv4_length: "length (uuidv4 rnds) = 36"
  by (simp add: uuidv4_def byteToHex_def Let_def)

lemma uuidv4_not_empty: "uuidv4 rnds \<noteq> []"
  using uuidv4_length [of rnds] by auto

lemma uuidv4_example:
  "uuidv4 332775110578032511810672948974796306 = ''123e4567-e89b-42d3-a456-426614174000''"
  by (simp add: uuidv4_def byteToHex_def rndByte_def hexDigit_def Let_def)

lemma stubClient_simps:
  "getAccountPasswordPolicy (stubClient r w d) = r"
  "updateAccountPasswordPolicy (stubClient r w d) p = w"
  "deleteAccountPasswordPolicy (stubClient r w d) = d"
  by (simp_all add: stubClient_def)

lemma requestFor_simps:
  "desiredResourceState (requestFor desired l) = desired"
  "logicalResourceIdentifier (requestFor desired l) = Some l"
  by (simp_all add: requestFor_def)

text \<open>
  C6, as the code has it: Create with a session and the desired state
  \<^verbatim>\<open>{MinimumPasswordLength: "8", RequireSymbols: "true"}\<close> makes one remote call, the write, whose
  request has no \<^verbatim>\<open>ResourceId\<close>, \<^verbatim>\<open>MinimumPasswordLength\<close> 8 and \<^verbatim>\<open>RequireSymbols\<close> true. When
  the write succeeds, the result is Success with the model carrying the identifier that
  \<^verbatim>\<open>uuidv4()\<close> generated, which has 36 characters and so is not empty. When the write fails,
  Create fails with \<^verbatim>\<open>InternalFailure\<close> carrying the remote message. No write request of any
  handler contains a \<^verbatim>\<open>ResourceId\<close>.
\<close>

theorem create_scenario:
  "desiredResourceState request =
     emptyObject\<lparr>MinimumPasswordLength := Str ''8'', RequireSymbols := Str ''true''\<rparr> \<Longrightarrow>
   (\<exists>params.
      fst (Resource_create rnds (Some (SessionProxy client)) request) = [WritePolicy params] \<and>
      ResourceId params = None \<and>
      MinimumPasswordLength params = Native (Fin 8) \<and>
      RequireSymbols params = Native True \<and>
      params = emptyObject\<lparr>MinimumPasswordLength := Native (Fin 8), RequireSymbols := Native True\<rparr> \<and>
      (updateAccountPasswordPolicy client params = Inr () \<longrightarrow>
         snd (Resource_create rnds (Some (SessionProxy client)) request) =
           Inr \<lparr>status = Success,
                resourceModel = Some (emptyPolicy\<lparr>ResourceId := Some (uuidv4 rnds),
                  MinimumPasswordLength := Some (Fin 8), RequireSymbols := Some True\<rparr>),
                resourceModels = None\<rparr> \<and>
         uuidv4 rnds \<noteq> [] \<and> length (uuidv4 rnds) = 36) \<and>
      (\<forall>err. updateAccountPasswordPolicy client params = Inl err \<longrightarrow>
         snd (Resource_create rnds (Some (SessionProxy client)) request) =
           Inl (InternalFailure (message err)))) \<and>
   (\<forall>u s r p.
      WritePolicy p \<in> set (fst (Resource_create u s r)) \<union> set (fst (Resource_update u s r)) \<union>
        set (fst (Resource_delete s r)) \<union> set (fst (Resource_read s r)) \<union>
        set (fst (Resource_list s r)) \<longrightarrow> ResourceId p = None)"
proof -
  assume d: "desiredResourceState request =
     emptyObject\<lparr>MinimumPasswordLength := Str ''8'', RequireSymbols := Str ''true''\<rparr>"
  let ?model = "emptyPolicy\<lparr>MinimumPasswordLength := Some (Fin 8), RequireSymbols := Some True\<rparr>"
  let ?params = "emptyObject\<lparr>MinimumPasswordLength := Native (Fin 8), RequireSymbols := Native True\<rparr>"
  have m: "fromObject (desiredResourceState request) = Inr ?model"
    unfolding d by (rule fromObject_scenario)
  have p: "serialize ?model = ?params"
    by (simp add: serialize_def toObject_def emptyPolicy_def emptyObject_def)
  have f: "falsy (ResourceId ?model)"
    by (simp add: falsy_def emptyPolicy_def)
  have c: "fst (Resource_create rnds (Some (SessionProxy client)) request) = [WritePolicy ?params]"
    by (simp add: create_calls m upsert_calls p)
  have r: "ResourceId ?params = None \<and> MinimumPasswordLength ?params = Native (Fin 8) \<and>
      RequireSymbols ?params = Native True"
    by (simp add: emptyObject_def)
  have s: "snd (Resource_create rnds (Some (SessionProxy client)) request) =
       Inr \<lparr>status = Success,
            resourceModel = Some (emptyPolicy\<lparr>ResourceId := Some (uuidv4 rnds),
              MinimumPasswordLength := Some (Fin 8), RequireSymbols := Some True\<rparr>),
            resourceModels = None\<rparr> \<and>
       uuidv4 rnds \<noteq> [] \<and> length (uuidv4 rnds) = 36"
    if "updateAccountPasswordPolicy client ?params = Inr ()"
  proof -
    have e: "?model\<lparr>ResourceId := Some (uuidv4 rnds)\<rparr> =
        emptyPolicy\<lparr>ResourceId := Some (uuidv4 rnds), MinimumPasswordLength := Some (Fin 8),
          RequireSymbols := Some True\<rparr>"
      by (simp add: emptyPolicy_def)
    have u: "upsertPasswordPolicy rnds (Some (SessionProxy client)) ?model
          (logicalResourceIdentifier request) =
        ([WritePolicy ?params], Inr (?model\<lparr>ResourceId := Some (uuidv4 rnds)\<rparr>))"
      using that f by (simp add: upsert_session p)
    show ?thesis
      unfolding e [symmetric]
      by (simp add: Resource_create_def m u uuidv4_not_empty uuidv4_length)
  qed
  have t: "snd (Resource_create rnds (Some (SessionProxy client)) request) =
       Inl (InternalFailure (message err))"
    if "updateAccountPasswordPolicy client ?params = Inl err" for err
  proof -
    have u: "upsertPasswordPolicy rnds (Some (SessionProxy client)) ?model
          (logicalResourceIdentifier request) =
        ([WritePolicy ?params], Inl (InternalFailure (message err)))"
      using that by (simp add: upsert_session p)
    show ?thesis by (simp add: Resource_create_def m u)
  qed
  have w: "\<forall>u s r p.
      WritePolicy p \<in> set (fst (Resource_create u s r)) \<union> set (fst (Resource_update u s r)) \<union>
        set (fst (Resource_delete s r)) \<union> set (fst (Resource_read s r)) \<union>
        set (fst (Resource_list s r)) \<longrightarrow> ResourceId p = None"
    using create_writes update_writes delete_writes read_writes list_writes by blast
  from c r s t w show ?thesis by blast
qed

text \<open>
  The scenario with a client whose write succeeds, and with one whose write is refused.
\<close>

theorem create_scenario_witness:
  "Resource_create 332775110578032511810672948974796306
     (Some (SessionProxy (stubClient (Inl (AWSError (Some ''NoSuchEntity'') ''none'')) (Inr ()) (Inr ()))))
     (requestFor (emptyObject\<lparr>MinimumPasswordLength := Str ''8'', RequireSymbols := Str ''true''\<rparr>)
        ''Policy'') =
     ([WritePolicy (emptyObject\<lparr>MinimumPasswordLength := Native (Fin 8), RequireSymbols := Native True\<rparr>)],
      Inr \<lparr>status = Success,
           resourceModel = Some (emptyPolicy\<lparr>ResourceId := Some ''123e4567-e89b-42d3-a456-426614174000'',
             MinimumPasswordLength := Some (Fin 8), RequireSymbols := Some True\<rparr>),
           resourceModels = None\<rparr>) \<and>
   snd (Resource_create 332775110578032511810672948974796306
     (Some (SessionProxy (stubClient (Inl (AWSError (Some ''NoSuchEntity'') ''none''))
        (Inl (AWSError (Some ''AccessDenied'') ''denied'')) (Inr ()))))
     (requestFor (emptyObject\<lparr>MinimumPasswordLength := Str ''8'', RequireSymbols := Str ''true''\<rparr>)
        ''Policy'')) =
     Inl (InternalFailure ''denied'')"
proof -
  let ?req = "requestFor (emptyObject\<lparr>MinimumPasswordLength := Str ''8'', RequireSymbols := Str ''true''\<rparr>)
            ''Policy''"
  let ?c1 = "stubClient (Inl (AWSError (Some ''NoSuchEntity'') ''none'')) (Inr ()) (Inr ())"
  let ?c2 = "stubClient (Inl (AWSError (Some ''NoSuchEntity'') ''none''))
        (Inl (AWSError (Some ''AccessDenied'') ''denied'')) (Inr ())"
  let ?rnds = "332775110578032511810672948974796306 :: nat"
  have d: "desiredResourceState ?req =
      emptyObject\<lparr>MinimumPasswordLength := Str ''8'', RequireSymbols := Str ''true''\<rparr>"
    by (simp add: requestFor_simps)
  have w1: "updateAccountPasswordPolicy ?c1 p = Inr ()" for p
    by (simp add: stubClient_simps)
  have w2: "updateAccountPasswordPolicy ?c2 p = Inl (AWSError (Some ''AccessDenied'') ''denied'')" for p
    by (simp add: stubClient_simps)
  from create_scenario [OF d, of ?rnds ?c1] w1
  have 1: "Resource_create ?rnds (Some (SessionProxy ?c1)) ?req =
     ([WritePolicy (emptyObject\<lparr>MinimumPasswordLength := Native (Fin 8), RequireSymbols := Native True\<rparr>)],
      Inr \<lparr>status = Success,
           resourceModel = Some (emptyPolicy\<lparr>ResourceId := Some (uuidv4 ?rnds),
             MinimumPasswordLength := Some (Fin 8), RequireSymbols := Some True\<rparr>),
           resourceModels = None\<rparr>)"
    by (auto simp: prod_eq_iff)
  from create_scenario [OF d, of ?rnds ?c2] w2
  have 2: "snd (Resource_create ?rnds (Some (SessionProxy ?c2)) ?req) =
      Inl (InternalFailure ''denied'')"
    by auto
  from 1 2 show ?thesis unfolding uuidv4_example by simp
qed

text \<open>
  C6 as stated fails: in the scenario, with a session whose remote write is refused, Create
  sends the write request and returns no Success result: it fails with \<^verbatim>\<open>InternalFailure\<close>.
\<close>

theorem create_write_refused_counterexample:
  "Resource_create 332775110578032511810672948974796306
     (Some (SessionProxy (stubClient (Inl (AWSError (Some ''NoSuchEntity'') ''none''))
        (Inl (AWSError (Some ''AccessDenied'') ''denied'')) (Inr ()))))
     (requestFor (emptyObject\<lparr>MinimumPasswordLength := Str ''8'', RequireSymbols := Str ''true''\<rparr>)
        ''Policy'') =
     ([WritePolicy (emptyObject\<lparr>MinimumPasswordLength := Native (Fin 8), RequireSymbols := Native True\<rparr>)],
      Inl (InternalFailure ''denied''))"
proof -
  let ?client = "stubClient (Inl (AWSError (Some ''NoSuchEntity'') ''none''))
        (Inl (AWSError (Some ''AccessDenied'') ''denied'')) (Inr ())"
  let ?model = "emptyPolicy\<lparr>MinimumPasswordLength := Some (Fin 8), RequireSymbols := Some True\<rparr>"
  let ?params = "emptyObject\<lparr>MinimumPasswordLength := Native (Fin 8), RequireSymbols := Native True\<rparr>"
  have p: "serialize ?model = ?params"
    by (simp add: serialize_def toObject_def emptyPolicy_def emptyObject_def)
  have u: "upsertPasswordPolicy 332775110578032511810672948974796306 (Some (SessionProxy ?client)) ?model (Some ''Policy'') =
      ([WritePolicy ?params], Inl (InternalFailure ''denied''))"
    by (simp add: upsert_session stubClient_simps p)
  show ?thesis
    by (simp add: Resource_create_def requestFor_simps fromObject_scenario u)
qed

section \<open>Update\<close>

lemma retrieve_session_calls:
  "retrievePasswordPolicy (Some (SessionProxy client)) r l = (calls, res) \<Longrightarrow> calls = [ReadPolicy]"
  using retrieve_calls [of "Some (SessionProxy client)" r l] by simp

lemma update_retrieve_fails:
  assumes "fromObject (desiredResourceState request) = Inr model"
    and "retrievePasswordPolicy session (ResourceId model) (logicalResourceIdentifier request) =
          (calls, Inl err)"
  shows "Resource_update rnds session request = (calls, Inl err)"
  using assms by (simp add: Resource_update_def)

lemma update_retrieve_returns:
  assumes "fromObject (desiredResourceState request) = Inr model"
    and "retrievePasswordPolicy session (ResourceId model) (logicalResourceIdentifier request) =
          (calls, Inr retrieved)"
    and "upsertPasswordPolicy rnds session model (logicalResourceIdentifier request) = (calls', res)"
  shows "Resource_update rnds session request =
     (calls @ calls',
      case res of
        Inl err \<Rightarrow> Inl err
      | Inr model' \<Rightarrow> Inr \<lparr>status = Success, resourceModel = Some model', resourceModels = None\<rparr>)"
  using assms by (simp add: Resource_update_def split: sum.split)

text \<open>
  C7, as the code has it, for an Update whose desired state parses. The retrieve comes first
  and its model is discarded. When the retrieve throws, \<^verbatim>\<open>NotFound\<close> or any other error, Update
  fails with that error and no write request has been sent; a remote read that fails with
  \<^verbatim>\<open>NoSuchEntity\<close> gives \<^verbatim>\<open>NotFound\<close>. When the retrieve returns, the desired state is written:
  a write that fails makes Update fail with \<^verbatim>\<open>InternalFailure\<close> carrying the remote message,
  a write that succeeds gives Success with the upserted model. That is with a session; without
  one nothing is called, nothing is written, and the result is Success with the parsed model.
\<close>

theorem update_behaviour:
  "fromObject (desiredResourceState request) = Inr model \<Longrightarrow>
   (\<forall>calls err.
      retrievePasswordPolicy session (ResourceId model) (logicalResourceIdentifier request) =
        (calls, Inl err) \<longrightarrow>
      Resource_update rnds session request = (calls, Inl err) \<and>
      (\<forall>p. WritePolicy p \<notin> set calls)) \<and>
   (\<forall>client err.
      session = Some (SessionProxy client) \<and> getAccountPasswordPolicy client = Inl err \<and>
      code err = Some ''NoSuchEntity'' \<longrightarrow>
      Resource_update rnds session request =
        ([ReadPolicy],
         Inl (NotFound TYPE_NAME (orElse (ResourceId model) (logicalResourceIdentifier request))))) \<and>
   (\<forall>client calls retrieved.
      session = Some (SessionProxy client) \<and>
      retrievePasswordPolicy session (ResourceId model) (logicalResourceIdentifier request) =
        (calls, Inr retrieved) \<longrightarrow>
      (\<forall>err. updateAccountPasswordPolicy client (serialize model) = Inl err \<longrightarrow>
         Resource_update rnds session request =
           ([ReadPolicy, WritePolicy (serialize model)], Inl (InternalFailure (message err)))) \<and>
      (updateAccountPasswordPolicy client (serialize model) = Inr () \<longrightarrow>
         Resource_update rnds session request =
           ([ReadPolicy, WritePolicy (serialize model)],
            Inr \<lparr>status = Success,
                 resourceModel =
                   Some (if falsy (ResourceId model) then model\<lparr>ResourceId := Some (uuidv4 rnds)\<rparr>
                         else model),
                 resourceModels = None\<rparr>))) \<and>
   (session = None \<longrightarrow>
      Resource_update rnds session request =
        ([], Inr \<lparr>status = Success, resourceModel = Some model, resourceModels = None\<rparr>))"
proof -
  assume m: "fromObject (desiredResourceState request) = Inr model"
  let ?rid = "ResourceId model" and ?lid = "logicalResourceIdentifier request"
  have a: "Resource_update rnds session request = (calls, Inl err) \<and>
      (\<forall>p. WritePolicy p \<notin> set calls)"
    if "retrievePasswordPolicy session ?rid ?lid = (calls, Inl err)" for calls err
  proof -
    from that have "fst (retrievePasswordPolicy session ?rid ?lid) = calls" by simp
    then have "\<forall>p. WritePolicy p \<notin> set calls"
      by (auto simp: retrieve_calls split: option.splits)
    with update_retrieve_fails [OF m that] show ?thesis by simp
  qed
  have b: "Resource_update rnds session request =
        ([ReadPolicy], Inl (NotFound TYPE_NAME (orElse ?rid ?lid)))"
    if "session = Some (SessionProxy client)" "getAccountPasswordPolicy client = Inl err"
      "code err = Some ''NoSuchEntity''" for client err
    using that retrieve_failure [of client err ?rid ?lid] update_retrieve_fails [OF m]
    by simp
  have c: "(\<forall>err. updateAccountPasswordPolicy client (serialize model) = Inl err \<longrightarrow>
         Resource_update rnds session request =
           ([ReadPolicy, WritePolicy (serialize model)], Inl (InternalFailure (message err)))) \<and>
      (updateAccountPasswordPolicy client (serialize model) = Inr () \<longrightarrow>
         Resource_update rnds session request =
           ([ReadPolicy, WritePolicy (serialize model)],
            Inr \<lparr>status = Success,
                 resourceModel =
                   Some (if falsy (ResourceId model) then model\<lparr>ResourceId := Some (uuidv4 rnds)\<rparr>
                         else model),
                 resourceModels = None\<rparr>))"
    if s: "session = Some (SessionProxy client)"
      and r: "retrievePasswordPolicy session ?rid ?lid = (calls, Inr retrieved)"
    for client calls retrieved
  proof -
    from r s have calls: "calls = [ReadPolicy]"
      using retrieve_session_calls by blast
    obtain calls' res where u: "upsertPasswordPolicy rnds session model ?lid = (calls', res)"
      by (cases "upsertPasswordPolicy rnds session model ?lid")
    from update_retrieve_returns [OF m r u] u calls show ?thesis
      unfolding s upsert_session by (auto split: sum.splits)
  qed
  have d: "Resource_update rnds session request =
        ([], Inr \<lparr>status = Success, resourceModel = Some model, resourceModels = None\<rparr>)"
    if "session = None"
    using that m by (simp add: Resource_update_def retrieve_no_session upsert_no_session)
  from a b c d show ?thesis by blast
qed


lemma fromObject_emptyObject: "fromObject emptyObject = Inr emptyPolicy"
  by code_simp

lemma fromObject_length8:
  "fromObject (emptyObject\<lparr>MinimumPasswordLength := Str ''8''\<rparr>) =
     Inr (emptyPolicy\<lparr>MinimumPasswordLength := Some (Fin 8)\<rparr>)"
  by code_simp

lemma serialize_length8:
  "serialize (emptyPolicy\<lparr>MinimumPasswordLength := Some (Fin 8)\<rparr>) =
     emptyObject\<lparr>MinimumPasswordLength := Native (Fin 8)\<rparr>"
  by code_simp

lemma retrieve_success:
  "getAccountPasswordPolicy client = Inr response \<Longrightarrow> fromObject response = Inr model \<Longrightarrow>
   retrievePasswordPolicy (Some (SessionProxy client)) resourceId logicalResourceId =
     ([ReadPolicy], Inr (Some (model\<lparr>ResourceId := orElse resourceId logicalResourceId\<rparr>)))"
  by (simp add: retrievePasswordPolicy_def)

text \<open>
  C7 as stated fails: here the retrieve returns a model, so it does not throw \<^verbatim>\<open>NotFound\<close>,
  the write is refused, and Update does not return Success: it fails with
  \<^verbatim>\<open>InternalFailure\<close>.
\<close>

theorem update_write_failure_counterexample:
  "retrievePasswordPolicy
     (Some (SessionProxy (stubClient (Inr emptyObject) (Inl (AWSError (Some ''AccessDenied'') ''denied'')) (Inr ()))))
     None (Some ''Policy'') =
     ([ReadPolicy], Inr (Some (emptyPolicy\<lparr>ResourceId := Some ''Policy''\<rparr>))) \<and>
   Resource_update 332775110578032511810672948974796306
     (Some (SessionProxy (stubClient (Inr emptyObject) (Inl (AWSError (Some ''AccessDenied'') ''denied'')) (Inr ()))))
     (requestFor (emptyObject\<lparr>MinimumPasswordLength := Str ''8''\<rparr>) ''Policy'') =
     ([ReadPolicy, WritePolicy (emptyObject\<lparr>MinimumPasswordLength := Native (Fin 8)\<rparr>)],
      Inl (InternalFailure ''denied''))"
proof -
  let ?client = "stubClient (Inr emptyObject) (Inl (AWSError (Some ''AccessDenied'') ''denied'')) (Inr ())"
  let ?model = "emptyPolicy\<lparr>MinimumPasswordLength := Some (Fin 8)\<rparr>"
  have r: "retrievePasswordPolicy (Some (SessionProxy ?client)) None (Some ''Policy'') =
      ([ReadPolicy], Inr (Some (emptyPolicy\<lparr>ResourceId := Some ''Policy''\<rparr>)))"
    by (simp add: retrieve_success [of ?client emptyObject emptyPolicy] stubClient_simps
        fromObject_emptyObject orElse_simps)
  have i: "ResourceId ?model = None" by (simp add: emptyPolicy_def)
  have u: "upsertPasswordPolicy 332775110578032511810672948974796306 (Some (SessionProxy ?client))
      ?model (Some ''Policy'') =
      ([WritePolicy (emptyObject\<lparr>MinimumPasswordLength := Native (Fin 8)\<rparr>)],
       Inl (InternalFailure ''denied''))"
    by (simp add: upsert_session stubClient_simps serialize_length8)
  have "Resource_update 332775110578032511810672948974796306 (Some (SessionProxy ?client))
     (requestFor (emptyObject\<lparr>MinimumPasswordLength := Str ''8''\<rparr>) ''Policy'') =
     ([ReadPolicy, WritePolicy (emptyObject\<lparr>MinimumPasswordLength := Native (Fin 8)\<rparr>)],
      Inl (InternalFailure ''denied''))"
    by (simp add: Resource_update_def requestFor_simps fromObject_length8 i r u)
  with r show ?thesis by simp
qed

text \<open>
  An Update against an account with no policy fails with \<^verbatim>\<open>NotFound\<close> after the read alone; an
  Update against an account with a policy reads, writes and succeeds; an Update without a
  session calls nothing and succeeds.
\<close>

theorem update_behaviour_witness:
  "Resource_update 332775110578032511810672948974796306
     (Some (SessionProxy (stubClient (Inl (AWSError (Some ''NoSuchEntity'') ''none'')) (Inr ()) (Inr ()))))
     (requestFor (emptyObject\<lparr>MinimumPasswordLength := Str ''8''\<rparr>) ''Policy'') =
     ([ReadPolicy], Inl (NotFound TYPE_NAME (Some ''Policy''))) \<and>
   Resource_update 332775110578032511810672948974796306
     (Some (SessionProxy (stubClient (Inr emptyObject) (Inr ()) (Inr ()))))
     (requestFor (emptyObject\<lparr>MinimumPasswordLength := Str ''8''\<rparr>) ''Policy'') =
     ([ReadPolicy, WritePolicy (emptyObject\<lparr>MinimumPasswordLength := Native (Fin 8)\<rparr>)],
      Inr \<lparr>status = Success,
           resourceModel = Some (emptyPolicy\<lparr>ResourceId := Some ''123e4567-e89b-42d3-a456-426614174000'',
             MinimumPasswordLength := Some (Fin 8)\<rparr>),
           resourceModels = None\<rparr>) \<and>
   Resource_update 332775110578032511810672948974796306 None
     (requestFor (emptyObject\<lparr>MinimumPasswordLength := Str ''8''\<rparr>) ''Policy'') =
     ([], Inr \<lparr>status = Success,
               resourceModel = Some (emptyPolicy\<lparr>MinimumPasswordLength := Some (Fin 8)\<rparr>),
               resourceModels = None\<rparr>)"
proof -
  let ?req = "requestFor (emptyObject\<lparr>MinimumPasswordLength := Str ''8''\<rparr>) ''Policy''"
  let ?model = "emptyPolicy\<lparr>MinimumPasswordLength := Some (Fin 8)\<rparr>"
  let ?c1 = "stubClient (Inl (AWSError (Some ''NoSuchEntity'') ''none'')) (Inr ()) (Inr ())"
  let ?c2 = "stubClient (Inr emptyObject) (Inr ()) (Inr ())"
  let ?rnds = "332775110578032511810672948974796306 :: nat"
  have m: "fromObject (desiredResourceState ?req) = Inr ?model"
    by (simp add: requestFor_simps fromObject_length8)
  have i: "ResourceId ?model = None" by (simp add: emptyPolicy_def)
  have l: "logicalResourceIdentifier ?req = Some ''Policy''" by (simp add: requestFor_simps)
  have g1: "getAccountPasswordPolicy ?c1 = Inl (AWSError (Some ''NoSuchEntity'') ''none'')"
    by (simp add: stubClient_simps)
  have 1: "Resource_update ?rnds (Some (SessionProxy ?c1)) ?req =
      ([ReadPolicy], Inl (NotFound TYPE_NAME (Some ''Policy'')))"
    using update_behaviour [OF m, of "Some (SessionProxy ?c1)" ?rnds] g1
    by (simp add: i l orElse_simps)
  have r2: "retrievePasswordPolicy (Some (SessionProxy ?c2)) (ResourceId ?model)
      (logicalResourceIdentifier ?req) =
      ([ReadPolicy], Inr (Some (emptyPolicy\<lparr>ResourceId := Some ''Policy''\<rparr>)))"
    by (simp add: retrieve_success [of ?c2 emptyObject emptyPolicy] stubClient_simps
        fromObject_emptyObject orElse_simps i l)
  have w2: "updateAccountPasswordPolicy ?c2 (serialize ?model) = Inr ()"
    by (simp add: stubClient_simps)
  have e: "?model\<lparr>ResourceId := Some (uuidv4 ?rnds)\<rparr> =
      emptyPolicy\<lparr>ResourceId := Some (uuidv4 ?rnds), MinimumPasswordLength := Some (Fin 8)\<rparr>"
    by (simp add: emptyPolicy_def)
  have 2: "Resource_update ?rnds (Some (SessionProxy ?c2)) ?req =
      ([ReadPolicy, WritePolicy (emptyObject\<lparr>MinimumPasswordLength := Native (Fin 8)\<rparr>)],
       Inr \<lparr>status = Success,
            resourceModel = Some (emptyPolicy\<lparr>ResourceId := Some (uuidv4 ?rnds),
              MinimumPasswordLength := Some (Fin 8)\<rparr>),
            resourceModels = None\<rparr>)"
    using update_behaviour [OF m, of "Some (SessionProxy ?c2)" ?rnds] r2 w2
    unfolding e [symmetric]
    by (simp add: falsy_def i serialize_length8)
  have 3: "Resource_update ?rnds None ?req =
      ([], Inr \<lparr>status = Success, resourceModel = Some ?model, resourceModels = None\<rparr>)"
    using update_behaviour [OF m, of None ?rnds] by simp
  from 1 2 3 show ?thesis by (simp add: uuidv4_example)
qed


section \<open>List\<close>

text \<open>
  C8: when the retrieve raises \<^verbatim>\<open>NotFound\<close>, List returns Success with the empty list of
  models; when it raises any other error, List raises that error; when it returns, the list
  holds what it returned.
\<close>

theorem list_not_found:
  "(\<forall>calls typeName identifier.
      retrievePasswordPolicy session (ResourceId (desiredResourceState request))
        (logicalResourceIdentifier request) = (calls, Inl (NotFound typeName identifier)) \<longrightarrow>
      Resource_list session request =
        (calls, Inr \<lparr>status = Success, resourceModel = None, resourceModels = Some []\<rparr>)) \<and>
   (\<forall>calls err.
      retrievePasswordPolicy session (ResourceId (desiredResourceState request))
        (logicalResourceIdentifier request) = (calls, Inl err) \<and> \<not> isNotFound err \<longrightarrow>
      Resource_list session request = (calls, Inl err)) \<and>
   (\<forall>calls model.
      retrievePasswordPolicy session (ResourceId (desiredResourceState request))
        (logicalResourceIdentifier request) = (calls, Inr model) \<longrightarrow>
      Resource_list session request =
        (calls, Inr \<lparr>status = Success, resourceModel = None, resourceModels = Some [model]\<rparr>)) \<and>
   (\<forall>client err.
      session = Some (SessionProxy client) \<and> getAccountPasswordPolicy client = Inl err \<longrightarrow>
      (code err = Some ''NoSuchEntity'' \<longrightarrow>
         Resource_list session request =
           ([ReadPolicy], Inr \<lparr>status = Success, resourceModel = None, resourceModels = Some []\<rparr>)) \<and>
      (code err \<noteq> Some ''NoSuchEntity'' \<longrightarrow>
         Resource_list session request = ([ReadPolicy], Inl (AWSFailure err))))"
proof -
  have r: "Resource_list session request =
      (if code err = Some ''NoSuchEntity''
       then ([ReadPolicy], Inr \<lparr>status = Success, resourceModel = None, resourceModels = Some []\<rparr>)
       else ([ReadPolicy], Inl (AWSFailure err)))"
    if "session = Some (SessionProxy client)" "getAccountPasswordPolicy client = Inl err"
    for client err
    using that by (simp add: Resource_list_def retrieve_failure)
  show ?thesis
    using r by (simp add: Resource_list_def)
qed

text \<open>List on an account with no policy, and List when the remote read is throttled.\<close>

theorem list_not_found_witness:
  "Resource_list
     (Some (SessionProxy (stubClient (Inl (AWSError (Some ''NoSuchEntity'') ''none'')) (Inr ()) (Inr ()))))
     (requestFor emptyObject ''Policy'') =
     ([ReadPolicy], Inr \<lparr>status = Success, resourceModel = None, resourceModels = Some []\<rparr>) \<and>
   Resource_list
     (Some (SessionProxy (stubClient (Inl (AWSError (Some ''Throttling'') ''slow down'')) (Inr ()) (Inr ()))))
     (requestFor emptyObject ''Policy'') =
     ([ReadPolicy], Inl (AWSFailure (AWSError (Some ''Throttling'') ''slow down'')))"
proof -
  let ?req = "requestFor emptyObject ''Policy''"
  let ?c1 = "stubClient (Inl (AWSError (Some ''NoSuchEntity'') ''none'')) (Inr ()) (Inr ())"
  let ?c2 = "stubClient (Inl (AWSError (Some ''Throttling'') ''slow down'')) (Inr ()) (Inr ())"
  have r1: "retrievePasswordPolicy (Some (SessionProxy ?c1)) (ResourceId (desiredResourceState ?req))
      (logicalResourceIdentifier ?req) = ([ReadPolicy], Inl (NotFound TYPE_NAME (Some ''Policy'')))"
    by (simp add: retrieve_failure [of ?c1 "AWSError (Some ''NoSuchEntity'') ''none''"]
        stubClient_simps requestFor_simps emptyObject_def orElse_simps)
  have r2: "retrievePasswordPolicy (Some (SessionProxy ?c2)) (ResourceId (desiredResourceState ?req))
      (logicalResourceIdentifier ?req) =
      ([ReadPolicy], Inl (AWSFailure (AWSError (Some ''Throttling'') ''slow down'')))"
    by (simp add: retrieve_failure [of ?c2 "AWSError (Some ''Throttling'') ''slow down''"]
        stubClient_simps)
  have n: "\<not> isNotFound (AWSFailure (AWSError (Some ''Throttling'') ''slow down''))" by simp
  from list_not_found [of "Some (SessionProxy ?c1)" ?req] r1
  have 1: "Resource_list (Some (SessionProxy ?c1)) ?req =
      ([ReadPolicy], Inr \<lparr>status = Success, resourceModel = None, resourceModels = Some []\<rparr>)"
    by blast
  from list_not_found [of "Some (SessionProxy ?c2)" ?req] r2 n
  have 2: "Resource_list (Some (SessionProxy ?c2)) ?req =
      ([ReadPolicy], Inl (AWSFailure (AWSError (Some ''Throttling'') ''slow down'')))"
    by blast
  from 1 2 show ?thesis by simp
qed

section \<open>Delete\<close>

text \<open>
  C9, as the code has it: a Delete that succeeds has parsed the desired state, has retrieved the
  current policy and has called the remote delete (with a session: the read, then the delete,
  both answered without an error), and its result has the status Success and no list of
  models. Its \<^verbatim>\<open>resourceModel\<close> is the parsed desired state, which the builder was given at the
  start and nothing removes.
\<close>

theorem delete_success:
  "Resource_delete session request = (calls, Inr progress) \<Longrightarrow>
   status progress = Success \<and>
   resourceModels progress = None \<and>
   (\<exists>model. fromObject (desiredResourceState request) = Inr model \<and>
      resourceModel progress = Some model) \<and>
   (session = None \<longrightarrow> calls = []) \<and>
   (\<forall>client. session = Some (SessionProxy client) \<longrightarrow>
      calls = [ReadPolicy, DeletePolicy] \<and>
      (\<exists>response. getAccountPasswordPolicy client = Inr response) \<and>
      deleteAccountPasswordPolicy client = Inr ())"
proof -
  assume a: "Resource_delete session request = (calls, Inr progress)"
  then obtain model where m: "fromObject (desiredResourceState request) = Inr model"
    by (auto simp: Resource_delete_def split: sum.splits)
  obtain c r where r: "retrievePasswordPolicy session (ResourceId model)
      (logicalResourceIdentifier request) = (c, r)"
    by (cases "retrievePasswordPolicy session (ResourceId model) (logicalResourceIdentifier request)")
  from a m r obtain x where x: "r = Inr x"
    by (cases r) (auto simp: Resource_delete_def)
  have p: "progress = \<lparr>status = Success, resourceModel = Some model, resourceModels = None\<rparr>"
    using a m r x
    by (auto simp: Resource_delete_def Let_def split: option.splits SessionProxy.splits sum.splits)
  have n: "calls = []" if "session = None"
    using a m r x that by (auto simp: Resource_delete_def Let_def retrieve_no_session)
  have s: "calls = [ReadPolicy, DeletePolicy] \<and>
      (\<exists>response. getAccountPasswordPolicy client = Inr response) \<and>
      deleteAccountPasswordPolicy client = Inr ()"
    if s: "session = Some (SessionProxy client)" for client
  proof -
    from r s have c: "c = [ReadPolicy]" using retrieve_session_calls by blast
    have g: "\<exists>response. getAccountPasswordPolicy client = Inr response"
      using r x unfolding s
      by (cases "getAccountPasswordPolicy client") (auto simp: retrieve_failure)
    from a m r x c s g show ?thesis
      by (auto simp: Resource_delete_def Let_def split: sum.splits)
  qed
  from p m n s show ?thesis by auto
qed

text \<open>A Delete that succeeds, with the desired state \<^verbatim>\<open>{MinimumPasswordLength: "8"}\<close>.\<close>

theorem delete_success_witness:
  "Resource_delete (Some (SessionProxy (stubClient (Inr emptyObject) (Inr ()) (Inr ()))))
     (requestFor (emptyObject\<lparr>MinimumPasswordLength := Str ''8''\<rparr>) ''Policy'') =
     ([ReadPolicy, DeletePolicy],
      Inr \<lparr>status = Success,
           resourceModel = Some (emptyPolicy\<lparr>MinimumPasswordLength := Some (Fin 8)\<rparr>),
           resourceModels = None\<rparr>) \<and>
   status \<lparr>status = Success,
           resourceModel = Some (emptyPolicy\<lparr>MinimumPasswordLength := Some (Fin 8)\<rparr>),
           resourceModels = None\<rparr> = Success"
proof -
  let ?client = "stubClient (Inr emptyObject) (Inr ()) (Inr ())"
  let ?req = "requestFor (emptyObject\<lparr>MinimumPasswordLength := Str ''8''\<rparr>) ''Policy''"
  let ?model = "emptyPolicy\<lparr>MinimumPasswordLength := Some (Fin 8)\<rparr>"
  let ?progress = "\<lparr>status = Success, resourceModel = Some ?model, resourceModels = None\<rparr>"
  have i: "ResourceId ?model = None" by (simp add: emptyPolicy_def)
  have r: "retrievePasswordPolicy (Some (SessionProxy ?client)) None (Some ''Policy'') =
      ([ReadPolicy], Inr (Some (emptyPolicy\<lparr>ResourceId := Some ''Policy''\<rparr>)))"
    by (simp add: retrieve_success [of ?client emptyObject emptyPolicy] stubClient_simps
        fromObject_emptyObject orElse_simps)
  have d: "Resource_delete (Some (SessionProxy ?client)) ?req =
      ([ReadPolicy, DeletePolicy], Inr ?progress)"
    by (simp add: Resource_delete_def requestFor_simps fromObject_length8 i r stubClient_simps)
  from delete_success [OF d] have "status ?progress = Success" by blast
  with d show ?thesis by simp
qed

text \<open>
  C9 as stated fails: this Delete succeeds, and its result carries the model
  \<^verbatim>\<open>{RequireSymbols: true}\<close> parsed from the desired state.
\<close>

theorem delete_carries_model_counterexample:
  "Resource_delete (Some (SessionProxy (stubClient (Inr emptyObject) (Inr ()) (Inr ()))))
     (requestFor (emptyObject\<lparr>RequireSymbols := Str ''true''\<rparr>) ''Policy'') =
     ([ReadPolicy, DeletePolicy],
      Inr \<lparr>status = Success,
           resourceModel = Some (emptyPolicy\<lparr>RequireSymbols := Some True\<rparr>),
           resourceModels = None\<rparr>)"
proof -
  let ?client = "stubClient (Inr emptyObject) (Inr ()) (Inr ())"
  let ?model = "emptyPolicy\<lparr>RequireSymbols := Some True\<rparr>"
  have f: "fromObject (emptyObject\<lparr>RequireSymbols := Str ''true''\<rparr>) = Inr ?model"
    by code_simp
  have i: "ResourceId ?model = None" by (simp add: emptyPolicy_def)
  have r: "retrievePasswordPolicy (Some (SessionProxy ?client)) None (Some ''Policy'') =
      ([ReadPolicy], Inr (Some (emptyPolicy\<lparr>ResourceId := Some ''Policy''\<rparr>)))"
    by (simp add: retrieve_success [of ?client emptyObject emptyPolicy] stubClient_simps
        fromObject_emptyObject orElse_simps)
  show ?thesis
    by (simp add: Resource_delete_def requestFor_simps f i r stubClient_simps)
qed

section \<open>Handlers without a session\<close>




end
